theory Spec2Isabelle
  imports Complex_Main
begin

section \<open>Python values\<close>

text \<open>
  A transaction arrives as a JSON object and is handled as a Python \<open>dict\<close> from
  field names to JSON values. A Python \<open>float\<close> is an IEEE double: a finite number,
  one of the two infinities, or not-a-number. The finite ones are embedded in the
  reals (the rounding of arithmetic to the nearest double is not modelled, and a
  decimal literal of the source stands for its decimal value).
\<close>

datatype pyfloat = Finite real | PosInf | NegInf | NaN

datatype pyval =
    PyNone
  | PyBool bool
  | PyInt int
  | PyFloat pyfloat
  | PyStr string
  | PyList "pyval list"
  | PyDict "(string \<times> pyval) list"

type_synonym dict = "string \<rightharpoonup> pyval"

text \<open>The comparisons \<open><\<close> and \<open><=\<close> of two floats; every comparison with NaN is false.\<close>

fun fl_less :: "pyfloat \<Rightarrow> pyfloat \<Rightarrow> bool" where
  "fl_less NaN _ = False"
| "fl_less _ NaN = False"
| "fl_less (Finite a) (Finite b) = (a < b)"
| "fl_less (Finite _) PosInf = True"
| "fl_less (Finite _) NegInf = False"
| "fl_less PosInf _ = False"
| "fl_less NegInf NegInf = False"
| "fl_less NegInf _ = True"

fun fl_le :: "pyfloat \<Rightarrow> pyfloat \<Rightarrow> bool" where
  "fl_le NaN _ = False"
| "fl_le _ NaN = False"
| "fl_le (Finite a) (Finite b) = (a \<le> b)"
| "fl_le (Finite _) PosInf = True"
| "fl_le (Finite _) NegInf = False"
| "fl_le PosInf PosInf = True"
| "fl_le PosInf _ = False"
| "fl_le NegInf _ = True"

subsection \<open>Exceptions and messages\<close>

text \<open>
  The texts the program produces are Russian sentences, some with a value
  formatted into them. Each sentence is a constructor here, with the formatted
  value as its argument:
  \<^item> \<open>Ok_msg\<close>: "OK";
  \<^item> \<open>Missing_features fs\<close>: "features are missing:" followed by the list \<open>fs\<close>;
  \<^item> \<open>Must_be_number f\<close>: "feature \<open>f\<close> must be a number";
  \<^item> \<open>Negative_amount\<close>: "the transaction amount cannot be negative";
  \<^item> \<open>Validation_error m\<close>: "validation error:" followed by \<open>m\<close>;
  \<^item> \<open>Scaler_not_loaded\<close>, \<open>Model_not_loaded\<close>: the artifact is not loaded;
  \<^item> \<open>Float_type_error\<close>, \<open>Float_value_error\<close>, \<open>Int_too_large\<close>: the texts of
    the exceptions of the built-in \<open>float()\<close>;
  \<^item> \<open>Key k\<close>: the text of a \<open>KeyError\<close> for the key \<open>k\<close>;
  \<^item> \<open>No_attribute\<close>: the text of an \<open>AttributeError\<close> on \<open>None\<close>;
  \<^item> \<open>Library s\<close>: the text of an exception raised inside the scaler or the
    classifier;
  \<^item> the remaining ones are the error texts of the HTTP handlers.
\<close>

datatype message =
    Ok_msg
  | Missing_features "string list"
  | Must_be_number string
  | Negative_amount
  | Validation_error message
  | Scaler_not_loaded
  | Model_not_loaded
  | Float_type_error
  | Float_value_error
  | Int_too_large
  | Key string
  | No_attribute
  | Library string
  | Json_expected
  | Empty_body
  | Threshold_range
  | Threshold_not_number
  | Validation_failed
  | Internal_server_error message
  | Transactions_expected
  | Max_batch_size

datatype exn_class =
  ValueError | TypeError | OverflowError | KeyError | AttributeError | OtherError

text \<open>An exception is its class and its text; \<open>str(e)\<close> is the text.\<close>

type_synonym exn = "exn_class \<times> message"

definition str_exn :: "exn \<Rightarrow> message" where
  "str_exn e = snd e"

subsection \<open>Logging\<close>

text \<open>
  Every function returns, as the last component of its result, the records it
  sent to the logger, in order.
\<close>

datatype level = INFO | WARNING | ERROR

subsection \<open>The built-in \<open>float()\<close>\<close>

text \<open>
  \<open>float(v)\<close> returns a float for a bool, an int, a float and a string that
  parses; it raises \<open>TypeError\<close> for \<open>None\<close>, a list and a dict, \<open>ValueError\<close> for a
  string that does not parse, and \<open>OverflowError\<close> for an int whose nearest double
  would be beyond the largest finite one (from \<open>2^1024 - 2^970\<close> on, in absolute
  value). The parser of strings belongs to the interpreter and is a parameter
  \<open>pf\<close> of the model: \<open>pf s = None\<close> when \<open>s\<close> does not parse.
\<close>

type_synonym str_parser = "string \<Rightarrow> pyfloat option"

fun py_float :: "str_parser \<Rightarrow> pyval \<Rightarrow> exn + pyfloat" where
  "py_float pf PyNone = Inl (TypeError, Float_type_error)"
| "py_float pf (PyBool b) = Inr (Finite (if b then 1 else 0))"
| "py_float pf (PyInt i) =
     (if 2 ^ 1024 - 2 ^ 970 \<le> \<bar>i\<bar> then Inl (OverflowError, Int_too_large)
      else Inr (Finite (of_int i)))"
| "py_float pf (PyFloat x) = Inr x"
| "py_float pf (PyStr s) =
     (case pf s of None \<Rightarrow> Inl (ValueError, Float_value_error) | Some x \<Rightarrow> Inr x)"
| "py_float pf (PyList _) = Inl (TypeError, Float_type_error)"
| "py_float pf (PyDict _) = Inl (TypeError, Float_type_error)"

text \<open>\<open>data[key]\<close> raises \<open>KeyError\<close> when the key is absent.\<close>

definition getitem :: "dict \<Rightarrow> string \<Rightarrow> exn + pyval" where
  "getitem data k = (case data k of None \<Rightarrow> Inl (KeyError, Key k) | Some v \<Rightarrow> Inr v)"

text \<open>The expression \<open>float(data[key])\<close>.\<close>

definition float_item :: "str_parser \<Rightarrow> dict \<Rightarrow> string \<Rightarrow> exn + pyfloat" where
  "float_item pf data k = (case getitem data k of Inl e \<Rightarrow> Inl e | Inr v \<Rightarrow> py_float pf v)"

section \<open>Results and log records\<close>

text \<open>
  The five risk labels of \<open>predict_with_details\<close> (Russian strings in the source:
  "very low", "low", "medium", "high", "very high"), and their order.
\<close>

datatype risk = Very_low | Low | Medium | High | Very_high

fun risk_rank :: "risk \<Rightarrow> nat" where
  "risk_rank Very_low = 0"
| "risk_rank Low = 1"
| "risk_rank Medium = 2"
| "risk_rank High = 3"
| "risk_rank Very_high = 4"

text \<open>
  The dict returned by \<open>predict_with_details\<close> has one of two shapes: the error
  payload \<open>{"error": m, "fraud_score": None, "is_fraud": None, "confidence": None}\<close>,
  or the prediction with the keys \<open>fraud_score\<close>, \<open>is_fraud\<close>, \<open>confidence\<close>,
  \<open>risk_level\<close>, \<open>threshold\<close> and \<open>model_info\<close> (the pair of \<open>model_name\<close> and
  \<open>model_auc\<close>).
\<close>

datatype payload =
    Error_payload message
  | Prediction real bool real risk pyfloat "pyval \<times> pyval"

text \<open>\<open>result.get(key)\<close> for the keys the callers read.\<close>

fun get_error :: "payload \<Rightarrow> message option" where
  "get_error (Error_payload m) = Some m"
| "get_error (Prediction _ _ _ _ _ _) = None"

fun get_fraud_score :: "payload \<Rightarrow> real option" where
  "get_fraud_score (Error_payload _) = None"
| "get_fraud_score (Prediction s _ _ _ _ _) = Some s"

fun get_is_fraud :: "payload \<Rightarrow> bool option" where
  "get_is_fraud (Error_payload _) = None"
| "get_is_fraud (Prediction _ b _ _ _ _) = Some b"

fun get_confidence :: "payload \<Rightarrow> real option" where
  "get_confidence (Error_payload _) = None"
| "get_confidence (Prediction _ _ c _ _ _) = Some c"

fun get_risk_level :: "payload \<Rightarrow> risk option" where
  "get_risk_level (Error_payload _) = None"
| "get_risk_level (Prediction _ _ _ r _ _) = Some r"

fun get_model_info :: "payload \<Rightarrow> (pyval \<times> pyval) option" where
  "get_model_info (Error_payload _) = None"
| "get_model_info (Prediction _ _ _ _ _ i) = Some i"

text \<open>
  The log records of the prediction path, by the sentence logged:
  \<^item> \<open>Large_amount a\<close>: "very large transaction amount: \<open>a\<close>" (preprocess.py);
  \<^item> \<open>Prediction_done p\<close>, \<open>Prediction_failed e\<close>: \<open>predict_fraud_probability\<close>;
  \<^item> \<open>Detailed_prediction r\<close>, \<open>Detailed_failed e\<close>: \<open>predict_with_details\<close>;
  \<^item> \<open>Api_prediction_done s b\<close>, \<open>Api_predict_failed e\<close>, \<open>Api_traceback\<close>: the
    handler of \<open>/predict\<close>;
  \<^item> \<open>Api_batch_done n\<close>, \<open>Api_batch_failed e\<close>: the handler of \<open>/predict/batch\<close>;
  \<^item> \<open>Model_loaded\<close>, \<open>Scaler_loaded\<close>, \<open>Metrics_loaded\<close>, \<open>Model_initialised\<close>,
    \<open>Model_load_failed e\<close>: \<open>load_model\<close> and \<open>load_scaler\<close>, run by the constructor of
    the model.
\<close>

datatype log_text =
    Large_amount pyfloat
  | Prediction_done real
  | Prediction_failed exn
  | Detailed_prediction payload
  | Detailed_failed exn
  | Api_prediction_done "real option" "bool option"
  | Api_predict_failed exn
  | Api_traceback
  | Api_batch_done nat
  | Api_batch_failed exn
  | Model_loaded
  | Scaler_loaded
  | Metrics_loaded
  | Model_initialised
  | Model_load_failed exn

type_synonym log = "(level \<times> log_text) list"

section \<open>Validation and feature assembly (preprocess.py)\<close>

text \<open>
  The scaler is the artifact loaded from disk; only its \<open>transform\<close> is called. It
  is a parameter of the model: a function from the assembled row to the scaled
  row, which may raise.
\<close>

type_synonym scaler = "pyfloat list \<Rightarrow> exn + pyfloat list"

record data_preprocessor =
  scaler :: "scaler option"

definition required_features :: "string list" where
  "required_features =
    [''V1'', ''V2'', ''V3'', ''V4'', ''V5'', ''V6'', ''V7'', ''V8'', ''V9'', ''V10'',
     ''V11'', ''V12'', ''V13'', ''V14'', ''V15'', ''V16'', ''V17'', ''V18'', ''V19'', ''V20'',
     ''V21'', ''V22'', ''V23'', ''V24'', ''V25'', ''V26'', ''V27'', ''V28'', ''Amount'']"

text \<open>
  The loop over \<open>required_features\<close> that tries \<open>float(data[feature])\<close>: it returns
  at the first feature whose conversion raises \<open>ValueError\<close> or \<open>TypeError\<close>; any
  other exception is not caught and leaves the function. \<open>Inr None\<close> is the loop
  running to its end.
\<close>

fun check_types :: "str_parser \<Rightarrow> dict \<Rightarrow> string list \<Rightarrow> exn + (bool \<times> message) option" where
  "check_types pf data [] = Inr None"
| "check_types pf data (feature # rest) =
     (case float_item pf data feature of
        Inl e \<Rightarrow>
          if fst e = ValueError \<or> fst e = TypeError
          then Inr (Some (False, Must_be_number feature))
          else Inl e
      | Inr _ \<Rightarrow> check_types pf data rest)"

definition validate_transaction_data ::
  "str_parser \<Rightarrow> dict \<Rightarrow> (exn + bool \<times> message) \<times> log" where
  "validate_transaction_data pf data =
     (let missing_features = filter (\<lambda>f. data f = None) required_features in
      if missing_features \<noteq> [] then (Inr (False, Missing_features missing_features), [])
      else
        (case check_types pf data required_features of
           Inl e \<Rightarrow> (Inl e, [])
         | Inr (Some r) \<Rightarrow> (Inr r, [])
         | Inr None \<Rightarrow>
             (case float_item pf data ''Amount'' of
                Inl e \<Rightarrow> (Inl e, [])
              | Inr amount \<Rightarrow>
                  if fl_less amount (Finite 0) then (Inr (False, Negative_amount), [])
                  else
                    (Inr (True, Ok_msg),
                     if fl_less (Finite 100000) amount
                     then [(WARNING, Large_amount amount)] else []))))"

definition feature_names :: "string list" where
  "feature_names =
    [''Time'', ''V1'', ''V2'', ''V3'', ''V4'', ''V5'', ''V6'', ''V7'', ''V8'', ''V9'', ''V10'',
     ''V11'', ''V12'', ''V13'', ''V14'', ''V15'', ''V16'', ''V17'', ''V18'', ''V19'', ''V20'',
     ''V21'', ''V22'', ''V23'', ''V24'', ''V25'', ''V26'', ''V27'', ''V28'', ''Amount'']"

text \<open>
  The loop that appends \<open>float(data[feature])\<close> for each name, in order; an
  exception of a conversion leaves the loop.
\<close>

fun collect_features ::
  "str_parser \<Rightarrow> dict \<Rightarrow> string list \<Rightarrow> pyfloat list \<Rightarrow> exn + pyfloat list" where
  "collect_features pf data [] features = Inr features"
| "collect_features pf data (feature # rest) features =
     (case float_item pf data feature of
        Inl e \<Rightarrow> Inl e
      | Inr x \<Rightarrow> collect_features pf data rest (features @ [x]))"

text \<open>
  \<open>prepare_features\<close> writes \<open>data['Time'] = 0\<close> into the dict it was given, so the
  dict is part of the result: the second component is the caller's dict after the
  call. The third component is the preprocessor \<open>self\<close> after the call; the method
  assigns to none of its attributes.
\<close>

definition prepare_features ::
  "str_parser \<Rightarrow> data_preprocessor \<Rightarrow> dict
     \<Rightarrow> (exn + pyfloat list) \<times> dict \<times> data_preprocessor \<times> log" where
  "prepare_features pf self data =
     (case validate_transaction_data pf data of
        (Inl e, lg) \<Rightarrow> (Inl e, data, self, lg)
      | (Inr (is_valid, error_msg), lg) \<Rightarrow>
          if \<not> is_valid then (Inl (ValueError, Validation_error error_msg), data, self, lg)
          else
            (let data' = (if data ''Time'' = None then data(''Time'' \<mapsto> PyInt 0) else data) in
             case collect_features pf data' feature_names [] of
               Inl e \<Rightarrow> (Inl e, data', self, lg)
             | Inr features \<Rightarrow>
                 (case scaler self of
                    None \<Rightarrow> (Inl (ValueError, Scaler_not_loaded), data', self, lg)
                  | Some sc \<Rightarrow> (sc features, data', self, lg))))"

text \<open>\<open>create_sample_transaction\<close>: the example transaction of the source.\<close>

definition create_sample_transaction :: dict where
  "create_sample_transaction =
     map_of
      [(''V1'', PyFloat (Finite (-1.3598071336738))),
       (''V2'', PyFloat (Finite (-0.0727811733098497))),
       (''V3'', PyFloat (Finite 2.53634673796914)),
       (''V4'', PyFloat (Finite 1.37815522427443)),
       (''V5'', PyFloat (Finite (-0.338320769942518))),
       (''V6'', PyFloat (Finite 0.462387777762292)),
       (''V7'', PyFloat (Finite 0.239598554061257)),
       (''V8'', PyFloat (Finite 0.0986979012610507)),
       (''V9'', PyFloat (Finite 0.363786969611213)),
       (''V10'', PyFloat (Finite 0.0907941719789316)),
       (''V11'', PyFloat (Finite (-0.551599533260813))),
       (''V12'', PyFloat (Finite (-0.617800855762348))),
       (''V13'', PyFloat (Finite (-0.991389847235408))),
       (''V14'', PyFloat (Finite (-0.311169353699879))),
       (''V15'', PyFloat (Finite 1.46817697209427)),
       (''V16'', PyFloat (Finite (-0.470400525259478))),
       (''V17'', PyFloat (Finite 0.207971241929242)),
       (''V18'', PyFloat (Finite 0.0257905801985591)),
       (''V19'', PyFloat (Finite 0.403992960255733)),
       (''V20'', PyFloat (Finite 0.251412098239705)),
       (''V21'', PyFloat (Finite (-0.018306777944153))),
       (''V22'', PyFloat (Finite 0.277837575558899)),
       (''V23'', PyFloat (Finite (-0.110473910188767))),
       (''V24'', PyFloat (Finite 0.0669280749146731)),
       (''V25'', PyFloat (Finite 0.128539358273528)),
       (''V26'', PyFloat (Finite (-0.189114843888824))),
       (''V27'', PyFloat (Finite 0.133558376740387)),
       (''V28'', PyFloat (Finite (-0.0210530534538215))),
       (''Amount'', PyFloat (Finite 149.62))]"

section \<open>Prediction (inference.py)\<close>

text \<open>
  The classifier is the other artifact: \<open>predict_proba(features)[0, 1]\<close>, the
  probability of the fraud class, or an exception.
\<close>

type_synonym classifier = "pyfloat list \<Rightarrow> exn + real"

record fraud_detection_model =
  model :: "classifier option"
  model_scaler :: "scaler option"
  metrics :: "dict option"
  preprocessor :: "data_preprocessor option"

text \<open>
  Every method returns, after its value and the caller's dict, the model object
  \<open>self\<close> as the call leaves it. The preprocessor is an object that the model
  holds: what \<open>prepare_features\<close> leaves of it is what \<open>self.preprocessor\<close> is after
  the call.
\<close>

definition predict_fraud_probability ::
  "str_parser \<Rightarrow> fraud_detection_model \<Rightarrow> dict
     \<Rightarrow> (exn + real) \<times> dict \<times> fraud_detection_model \<times> log" where
  "predict_fraud_probability pf self data =
     (case model self of
        None \<Rightarrow> (Inl (ValueError, Model_not_loaded), data, self, [])
      | Some clf \<Rightarrow>
          (case preprocessor self of
             None \<Rightarrow>
               (Inl (AttributeError, No_attribute), data, self,
                [(ERROR, Prediction_failed (AttributeError, No_attribute))])
           | Some pp \<Rightarrow>
               (case prepare_features pf pp data of
                  (Inl e, data', pp', lg) \<Rightarrow>
                    (Inl e, data', self\<lparr>preprocessor := Some pp'\<rparr>,
                     lg @ [(ERROR, Prediction_failed e)])
                | (Inr features, data', pp', lg) \<Rightarrow>
                    (case clf features of
                       Inl e \<Rightarrow>
                         (Inl e, data', self\<lparr>preprocessor := Some pp'\<rparr>,
                          lg @ [(ERROR, Prediction_failed e)])
                     | Inr probability \<Rightarrow>
                         (Inr probability, data', self\<lparr>preprocessor := Some pp'\<rparr>,
                          lg @ [(INFO, Prediction_done probability)])))))"

definition predict_fraud_class ::
  "str_parser \<Rightarrow> fraud_detection_model \<Rightarrow> dict \<Rightarrow> pyfloat
     \<Rightarrow> (exn + bool) \<times> dict \<times> fraud_detection_model \<times> log" where
  "predict_fraud_class pf self data threshold =
     (case predict_fraud_probability pf self data of
        (Inl e, data', self', lg) \<Rightarrow> (Inl e, data', self', lg)
      | (Inr probability, data', self', lg) \<Rightarrow>
          (Inr (fl_le threshold (Finite probability)), data', self', lg))"

text \<open>
  \<open>round(x, n)\<close> on a float: the nearest multiple of \<open>10^-n\<close>, a tie going to the
  even one.
\<close>

definition py_round :: "real \<Rightarrow> nat \<Rightarrow> real" where
  "py_round x n =
     (let y = x * 10 ^ n;
          f = \<lfloor>y\<rfloor>;
          d = y - of_int f
      in of_int (if d < 1 / 2 then f
                 else if 1 / 2 < d then f + 1
                 else if even f then f else f + 1) / 10 ^ n)"

text \<open>\<open>self.metrics.get(key, "Unknown") if self.metrics else "Unknown"\<close>.\<close>

definition metrics_get :: "dict option \<Rightarrow> string \<Rightarrow> pyval" where
  "metrics_get m k =
     (case m of
        None \<Rightarrow> PyStr ''Unknown''
      | Some d \<Rightarrow>
          if d = Map.empty then PyStr ''Unknown''
          else (case d k of None \<Rightarrow> PyStr ''Unknown'' | Some v \<Rightarrow> v))"

text \<open>
  The whole body of \<open>predict_with_details\<close> is inside \<open>try ... except Exception\<close>:
  every exception becomes an error payload carrying its text, after an error
  record in the log.
\<close>

definition predict_with_details ::
  "str_parser \<Rightarrow> fraud_detection_model \<Rightarrow> dict \<Rightarrow> pyfloat
     \<Rightarrow> payload \<times> dict \<times> fraud_detection_model \<times> log" where
  "predict_with_details pf self data threshold =
     (case preprocessor self of
        None \<Rightarrow>
          (Error_payload (str_exn (AttributeError, No_attribute)), data, self,
           [(ERROR, Detailed_failed (AttributeError, No_attribute))])
      | Some pp \<Rightarrow>
          (case validate_transaction_data pf data of
             (Inl e, lg) \<Rightarrow>
               (Error_payload (str_exn e), data, self, lg @ [(ERROR, Detailed_failed e)])
           | (Inr (is_valid, error_msg), lg) \<Rightarrow>
               if \<not> is_valid then (Error_payload error_msg, data, self, lg)
               else
                 (case predict_fraud_probability pf self data of
                    (Inl e, data', self', lg') \<Rightarrow>
                      (Error_payload (str_exn e), data', self',
                       lg @ lg' @ [(ERROR, Detailed_failed e)])
                  | (Inr probability, data', self', lg') \<Rightarrow>
                      (let is_fraud = fl_le threshold (Finite probability);
                           confidence = max probability (1 - probability);
                           risk_level =
                             (if probability < 0.1 then Very_low
                              else if probability < 0.3 then Low
                              else if probability < 0.7 then Medium
                              else if probability < 0.9 then High
                              else Very_high);
                           result =
                             Prediction (py_round probability 4) is_fraud
                               (py_round confidence 4) risk_level threshold
                               (metrics_get (metrics self') ''model_name'',
                                metrics_get (metrics self') ''roc_auc'')
                       in (result, data', self',
                           lg @ lg' @ [(INFO, Detailed_prediction result)])))))"

text \<open>
  \<open>batch_predict\<close>: one call of \<open>predict_with_details\<close> per transaction, the result
  tagged with \<open>transaction_id = i\<close>. The source wraps each call in a \<open>try\<close> of its
  own; \<open>predict_with_details\<close> catches every exception itself, so that handler
  has nothing to catch. The second component is the list of the callers' dicts
  after the call; each call is made on the model as the call before left it.
\<close>

fun batch_loop ::
  "str_parser \<Rightarrow> fraud_detection_model \<Rightarrow> pyfloat \<Rightarrow> nat \<Rightarrow> dict list
     \<Rightarrow> (nat \<times> payload) list \<times> dict list \<times> fraud_detection_model \<times> log" where
  "batch_loop pf self threshold i [] = ([], [], self, [])"
| "batch_loop pf self threshold i (transaction # rest) =
     (case predict_with_details pf self transaction threshold of
        (result, data', self', lg) \<Rightarrow>
          (case batch_loop pf self' threshold (Suc i) rest of
             (results, datas, self'', lgs) \<Rightarrow>
               ((i, result) # results, data' # datas, self'', lg @ lgs)))"

definition batch_predict ::
  "str_parser \<Rightarrow> fraud_detection_model \<Rightarrow> dict list \<Rightarrow> pyfloat
     \<Rightarrow> (nat \<times> payload) list \<times> dict list \<times> fraud_detection_model \<times> log" where
  "batch_predict pf self transactions threshold = batch_loop pf self threshold 0 transactions"

subsection \<open>The shared singleton\<close>

text \<open>
  inference.py keeps one model for the whole process in the module variable
  \<open>_global_model\<close>, \<open>None\<close> until \<open>get_model\<close> is first called. \<open>get_model\<close> constructs
  the model only then, and stores it; the constructor reads the artifacts from
  disk, so what it yields (the object, or the exception of \<open>load_model\<close>, and the
  records \<open>load_model\<close> logs) is a parameter, the \<open>loader\<close>. When the constructor
  raises, nothing is assigned. The variable is part of the result of every
  function that goes through \<open>get_model\<close>: the second component of \<open>get_model\<close>,
  the third of \<open>predict_fraud\<close> and \<open>validate_and_predict\<close> is \<open>_global_model\<close>
  after the call.

  The variable holds the model object, so after a method call on that object it
  holds the object as the call left it.
\<close>

type_synonym loader = "(exn + fraud_detection_model) \<times> log"

definition get_model ::
  "loader \<Rightarrow> fraud_detection_model option
     \<Rightarrow> (exn + fraud_detection_model) \<times> fraud_detection_model option \<times> log" where
  "get_model load global_model =
     (case global_model of
        None \<Rightarrow>
          (case load of
             (Inl e, lg) \<Rightarrow> (Inl e, None, lg)
           | (Inr m, lg) \<Rightarrow> (Inr m, Some m, lg))
      | Some m \<Rightarrow> (Inr m, Some m, []))"

text \<open>
  The module-level \<open>predict_fraud\<close> of inference.py: \<open>get_model()\<close>, then
  \<open>predict_with_details\<close> on the model it returns.
\<close>

definition predict_fraud ::
  "str_parser \<Rightarrow> loader \<Rightarrow> fraud_detection_model option \<Rightarrow> dict \<Rightarrow> pyfloat
     \<Rightarrow> (exn + payload) \<times> dict \<times> fraud_detection_model option \<times> log" where
  "predict_fraud pf load global_model data threshold =
     (case get_model load global_model of
        (Inl e, global_model', lg) \<Rightarrow> (Inl e, data, global_model', lg)
      | (Inr m, global_model', lg) \<Rightarrow>
          (case predict_with_details pf m data threshold of
             (result, data', m', lg') \<Rightarrow> (Inr result, data', Some m', lg @ lg')))"

text \<open>
  \<open>validate_and_predict\<close> returns the payload with one more key, \<open>valid\<close>: the first
  component of the pair. Its body is inside \<open>try ... except Exception\<close>: an
  exception of the validation or of \<open>get_model\<close> becomes the invalid result with
  the text of the exception.
\<close>

definition validate_and_predict ::
  "str_parser \<Rightarrow> loader \<Rightarrow> fraud_detection_model option \<Rightarrow> dict \<Rightarrow> pyfloat
     \<Rightarrow> (bool \<times> payload) \<times> dict \<times> fraud_detection_model option \<times> log" where
  "validate_and_predict pf load global_model data threshold =
     (case validate_transaction_data pf data of
        (Inl e, lg) \<Rightarrow> ((False, Error_payload (str_exn e)), data, global_model, lg)
      | (Inr (is_valid, error_msg), lg) \<Rightarrow>
          if \<not> is_valid then ((False, Error_payload error_msg), data, global_model, lg)
          else
            (case predict_fraud pf load global_model data threshold of
               (Inl e, data', global_model', lg') \<Rightarrow>
                 ((False, Error_payload (str_exn e)), data', global_model', lg @ lg')
             | (Inr result, data', global_model', lg') \<Rightarrow>
                 ((True, result), data', global_model', lg @ lg')))"

section \<open>The HTTP handlers (api.py)\<close>

text \<open>
  The handler of \<open>/predict\<close> is named \<open>predict_fraud\<close> in api.py, as the function of
  inference.py above; it is \<open>api_predict_fraud\<close> here. It reads the variable
  \<open>fraud_model\<close> of api.py and, through \<open>validate_and_predict\<close>, the variable
  \<open>_global_model\<close> of inference.py; the second component of its result is
  \<open>_global_model\<close> after the request.
  A response is its JSON body and its status code. The \<open>timestamp\<close> key of the
  bodies is the wall clock and is left out. The body of a request to \<open>/predict\<close>
  is a JSON object; the body of a request to \<open>/predict/batch\<close> is read through its
  two keys, \<open>transactions\<close> (a list of JSON objects, \<open>None\<close> when the body is
  empty or has no such key) and \<open>threshold\<close>.
\<close>

datatype response_body =
    Error_response message
  | Predict_response "real option" "bool option" "real option" "risk option" pyfloat
      "(pyval \<times> pyval) option"
  | Batch_response "(nat \<times> payload) list" nat pyfloat

record request =
  is_json :: bool
  json :: dict

record batch_request =
  batch_is_json :: bool
  transactions :: "dict list option"
  batch_threshold :: "pyval option"

definition api_predict_fraud ::
  "str_parser \<Rightarrow> loader \<Rightarrow> fraud_detection_model option \<Rightarrow> fraud_detection_model option
     \<Rightarrow> request \<Rightarrow> (response_body \<times> nat) \<times> fraud_detection_model option \<times> log" where
  "api_predict_fraud pf load global_model fraud_model req =
     (case fraud_model of
        None \<Rightarrow> ((Error_response Model_not_loaded, 503), global_model, [])
      | Some m \<Rightarrow>
          if \<not> is_json req then ((Error_response Json_expected, 400), global_model, [])
          else if json req = Map.empty
          then ((Error_response Empty_body, 400), global_model, [])
          else
            (let threshold =
                   (case json req ''threshold'' of None \<Rightarrow> PyFloat (Finite 0.5) | Some v \<Rightarrow> v);
                 data = (json req)(''threshold'' := None)
             in case py_float pf threshold of
                  Inl e \<Rightarrow>
                    if fst e = ValueError \<or> fst e = TypeError
                    then ((Error_response Threshold_not_number, 400), global_model, [])
                    else ((Error_response (Internal_server_error (str_exn e)), 500),
                          global_model,
                          [(ERROR, Api_predict_failed e), (ERROR, Api_traceback)])
                | Inr threshold \<Rightarrow>
                    if \<not> (fl_le (Finite 0) threshold \<and> fl_le threshold (Finite 1))
                    then ((Error_response Threshold_range, 400), global_model, [])
                    else
                      (case validate_and_predict pf load global_model data threshold of
                         ((valid, result), data', global_model', lg) \<Rightarrow>
                           if \<not> valid
                           then ((Error_response
                                    (case get_error result of
                                       None \<Rightarrow> Validation_failed | Some e \<Rightarrow> e), 400),
                                 global_model', lg)
                           else
                             ((Predict_response (get_fraud_score result) (get_is_fraud result)
                                 (get_confidence result) (get_risk_level result) threshold
                                 (get_model_info result), 200),
                              global_model',
                              lg @ [(INFO, Api_prediction_done (get_fraud_score result)
                                             (get_is_fraud result))]))))"

definition predict_batch ::
  "str_parser \<Rightarrow> fraud_detection_model option \<Rightarrow> batch_request
     \<Rightarrow> (response_body \<times> nat) \<times> log" where
  "predict_batch pf fraud_model req =
     (case fraud_model of
        None \<Rightarrow> ((Error_response Model_not_loaded, 503), [])
      | Some m \<Rightarrow>
          if \<not> batch_is_json req then ((Error_response Json_expected, 400), [])
          else
            (case transactions req of
               None \<Rightarrow> ((Error_response Transactions_expected, 400), [])
             | Some txs \<Rightarrow>
                 (let threshold =
                        (case batch_threshold req of
                           None \<Rightarrow> PyFloat (Finite 0.5) | Some v \<Rightarrow> v)
                  in case py_float pf threshold of
                       Inl e \<Rightarrow>
                         if fst e = ValueError \<or> fst e = TypeError
                         then ((Error_response Threshold_not_number, 400), [])
                         else ((Error_response (str_exn e), 500),
                               [(ERROR, Api_batch_failed e)])
                     | Inr threshold \<Rightarrow>
                         if \<not> (fl_le (Finite 0) threshold \<and> fl_le threshold (Finite 1))
                         then ((Error_response Threshold_range, 400), [])
                         else if length txs > 100
                         then ((Error_response Max_batch_size, 400), [])
                         else
                           (case batch_predict pf m txs threshold of
                              (results, datas, m', lg) \<Rightarrow>
                                ((Batch_response results (length txs) threshold, 200),
                                 lg @ [(INFO, Api_batch_done (length txs))])))))"

section \<open>Example inputs\<close>

text \<open>
  Concrete artifacts on which the functions are evaluated: a fragment of the
  interpreter's parser of floats, and a loaded model whose scaler is the identity
  (mean 0, scale 1) and whose classifier returns the probability \<open>p\<close> whatever
  the row.
\<close>

definition example_parser :: str_parser where
  "example_parser = [''0.5'' \<mapsto> Finite 0.5, ''1.5'' \<mapsto> Finite 1.5, ''nan'' \<mapsto> NaN]"

definition example_model :: "real \<Rightarrow> fraud_detection_model" where
  "example_model p =
     \<lparr>model = Some (\<lambda>features. Inr p), model_scaler = Some Inr, metrics = None,
      preprocessor = Some \<lparr>scaler = Some Inr\<rparr>\<rparr>"

text \<open>
  Two loaders: one whose constructor finds no model on disk and raises, one that
  loads the example model and logs what \<open>load_model\<close> logs when there is no
  metrics file.
\<close>

definition failing_loader :: loader where
  "failing_loader =
     (Inl (OtherError, Library ''model not found''),
      [(ERROR, Model_load_failed (OtherError, Library ''model not found''))])"

definition example_loader :: "real \<Rightarrow> loader" where
  "example_loader p =
     (Inr (example_model p),
      [(INFO, Model_loaded), (INFO, Scaler_loaded), (INFO, Scaler_loaded),
       (INFO, Model_initialised)])"

text \<open>
  \<open>numeric_fields data fs\<close>: every key of \<open>fs\<close> is present in \<open>data\<close> with a JSON number
  (an int or a finite float) as its value.
\<close>

definition numeric_fields :: "dict \<Rightarrow> string list \<Rightarrow> bool" where
  "numeric_fields data fs =
     list_all (\<lambda>f. case data f of
                      Some (PyInt i) \<Rightarrow> True
                    | Some (PyFloat (Finite r)) \<Rightarrow> True
                    | _ \<Rightarrow> False) fs"

section \<open>Notation for what a call leaves behind\<close>

text \<open>
  \<open>after_prediction pf self data\<close> is the record \<open>data\<close> with \<open>Time = 0\<close> added when
  the model \<open>self\<close> and its preprocessor are loaded, \<open>data\<close> passes validation and
  has no \<open>Time\<close>, and \<open>data\<close> itself otherwise. \<open>singleton_after load g\<close> is the
  singleton \<open>g\<close> when it is loaded, and otherwise what the loader yields: the
  loaded model, or \<open>None\<close> when the constructor raises.
\<close>

abbreviation after_prediction :: "str_parser \<Rightarrow> fraud_detection_model \<Rightarrow> dict \<Rightarrow> dict" where
  "after_prediction pf self data \<equiv>
     (if model self \<noteq> None \<and> preprocessor self \<noteq> None
         \<and> fst (validate_transaction_data pf data) = Inr (True, Ok_msg) \<and> data ''Time'' = None
      then data(''Time'' \<mapsto> PyInt 0) else data)"

abbreviation singleton_after ::
  "loader \<Rightarrow> fraud_detection_model option \<Rightarrow> fraud_detection_model option" where
  "singleton_after load g \<equiv>
     (case g of
        None \<Rightarrow> (case fst load of Inl e \<Rightarrow> None | Inr m \<Rightarrow> Some m)
      | Some m \<Rightarrow> Some m)"

section \<open>Validation: auxiliary facts\<close>

lemma time_not_required: "''Time'' \<notin> set required_features"
  by (simp add: required_features_def)

lemma amount_required: "''Amount'' \<in> set required_features"
  by (simp add: required_features_def)

lemma feature_names_eq: "feature_names = ''Time'' # required_features"
  by (simp add: feature_names_def required_features_def)

lemma float_item_present: "float_item pf data k = Inr x \<Longrightarrow> data k \<noteq> None"
  by (auto simp: float_item_def getitem_def split: option.splits)

lemma float_item_Some: "data k = Some v \<Longrightarrow> float_item pf data k = py_float pf v"
  by (simp add: float_item_def getitem_def)

lemma float_item_cong: "data k = data' k \<Longrightarrow> float_item pf data k = float_item pf data' k"
  by (simp add: float_item_def getitem_def)

lemma check_types_cong:
  "(\<And>f. f \<in> set fs \<Longrightarrow> data f = data' f) \<Longrightarrow> check_types pf data fs = check_types pf data' fs"
  by (induction fs) (auto simp: float_item_cong [of data _ data'] split: sum.splits)

lemma check_types_None_iff:
  "check_types pf data fs = Inr None \<longleftrightarrow> (\<forall>f\<in>set fs. \<exists>x. float_item pf data f = Inr x)"
  by (induction fs) (auto split: sum.splits)

lemma check_types_first_offender:
  assumes "\<forall>f\<in>set pre. \<exists>x. float_item pf data f = Inr x"
      and "float_item pf data g = Inl e"
  shows "check_types pf data (pre @ g # post) =
           (if fst e = ValueError \<or> fst e = TypeError
            then Inr (Some (False, Must_be_number g)) else Inl e)"
  using assms by (induction pre) auto

lemma validate_missing:
  assumes "\<exists>f\<in>set required_features. data f = None"
  shows "validate_transaction_data pf data =
           (Inr (False, Missing_features (filter (\<lambda>f. data f = None) required_features)), [])"
proof -
  have "filter (\<lambda>f. data f = None) required_features \<noteq> []"
    using assms by (simp add: filter_empty_conv)
  then show ?thesis by (simp add: validate_transaction_data_def)
qed

lemma validate_present:
  assumes "\<forall>f\<in>set required_features. data f \<noteq> None"
  shows "validate_transaction_data pf data =
     (case check_types pf data required_features of
           Inl e \<Rightarrow> (Inl e, [])
         | Inr (Some r) \<Rightarrow> (Inr r, [])
         | Inr None \<Rightarrow>
             (case float_item pf data ''Amount'' of
                Inl e \<Rightarrow> (Inl e, [])
              | Inr amount \<Rightarrow>
                  if fl_less amount (Finite 0) then (Inr (False, Negative_amount), [])
                  else
                    (Inr (True, Ok_msg),
                     if fl_less (Finite 100000) amount
                     then [(WARNING, Large_amount amount)] else [])))"
proof -
  have "filter (\<lambda>f. data f = None) required_features = []"
    using assms by (simp add: filter_empty_conv)
  then show ?thesis by (simp add: validate_transaction_data_def)
qed

lemma validate_coercible:
  assumes all: "\<forall>f\<in>set required_features. \<exists>x. float_item pf data f = Inr x"
      and amount: "float_item pf data ''Amount'' = Inr amount"
  shows "validate_transaction_data pf data =
           (if fl_less amount (Finite 0) then (Inr (False, Negative_amount), [])
            else (Inr (True, Ok_msg),
                  if fl_less (Finite 100000) amount then [(WARNING, Large_amount amount)] else []))"
proof -
  have present: "\<forall>f\<in>set required_features. data f \<noteq> None"
    using all float_item_present by blast
  have "check_types pf data required_features = Inr None"
    using all by (simp add: check_types_None_iff)
  then show ?thesis
    by (simp add: validate_present [OF present] amount)
qed

lemma check_types_Some_False:
  "check_types pf data fs = Inr (Some r) \<Longrightarrow> fst r = False"
  by (induction fs) (auto split: sum.splits if_splits)

lemma validate_ok_iff:
  "fst (validate_transaction_data pf data) = Inr (True, m) \<longleftrightarrow>
     m = Ok_msg \<and> (\<forall>f\<in>set required_features. \<exists>x. float_item pf data f = Inr x)
     \<and> (\<exists>a. float_item pf data ''Amount'' = Inr a \<and> \<not> fl_less a (Finite 0))"
proof (cases "\<forall>f\<in>set required_features. data f \<noteq> None")
  case False
  then have "\<exists>f\<in>set required_features. data f = None" by simp
  moreover from this have "\<not> (\<forall>f\<in>set required_features. \<exists>x. float_item pf data f = Inr x)"
    using float_item_present by blast
  ultimately show ?thesis by (simp add: validate_missing)
next
  case True
  show ?thesis
  proof (cases "check_types pf data required_features")
    case (Inl e)
    then have "\<not> (\<forall>f\<in>set required_features. \<exists>x. float_item pf data f = Inr x)"
      using check_types_None_iff [of pf data required_features] by simp
    with Inl show ?thesis by (simp add: validate_present [OF True])
  next
    case (Inr r)
    show ?thesis
    proof (cases r)
      case None
      then have all: "\<forall>f\<in>set required_features. \<exists>x. float_item pf data f = Inr x"
        using Inr check_types_None_iff [of pf data required_features] by simp
      then obtain a where a: "float_item pf data ''Amount'' = Inr a"
        using amount_required by blast
      show ?thesis using all a by (auto simp: validate_coercible [OF all a])
    next
      case (Some res)
      then have "\<not> (\<forall>f\<in>set required_features. \<exists>x. float_item pf data f = Inr x)"
        using Inr check_types_None_iff [of pf data required_features] by simp
      moreover have "fst res = False" using Inr Some check_types_Some_False by blast
      ultimately show ?thesis using Inr Some
        by (cases res) (simp add: validate_present [OF True])
    qed
  qed
qed


section \<open>Feature assembly: auxiliary facts\<close>

lemma collect_features_ok:
  "\<forall>f\<in>set fs. \<exists>x. float_item pf data f = Inr x \<Longrightarrow>
     \<exists>xs. collect_features pf data fs acc = Inr (acc @ xs)
          \<and> map Inr xs = map (float_item pf data) fs"
proof (induction fs arbitrary: acc)
  case Nil
  then show ?case by simp
next
  case (Cons g fs)
  then obtain x where x: "float_item pf data g = Inr x" by auto
  from Cons obtain xs where
    "collect_features pf data fs (acc @ [x]) = Inr ((acc @ [x]) @ xs)
       \<and> map Inr xs = map (float_item pf data) fs"
    by fastforce
  then show ?case using x by (intro exI [of _ "x # xs"]) simp
qed

lemma collect_features_fail:
  "\<forall>f\<in>set pre. \<exists>x. float_item pf data f = Inr x \<Longrightarrow> float_item pf data g = Inl e \<Longrightarrow>
     collect_features pf data (pre @ g # post) acc = Inl e"
  by (induction pre arbitrary: acc) auto

lemma prepare_features_valid:
  assumes "fst (validate_transaction_data pf data) = Inr (True, m)"
  shows "prepare_features pf self data =
           (let data' = (if data ''Time'' = None then data(''Time'' \<mapsto> PyInt 0) else data);
                lg = snd (validate_transaction_data pf data)
            in case collect_features pf data' feature_names [] of
                 Inl e \<Rightarrow> (Inl e, data', self, lg)
               | Inr features \<Rightarrow>
                   (case scaler self of
                      None \<Rightarrow> (Inl (ValueError, Scaler_not_loaded), data', self, lg)
                    | Some sc \<Rightarrow> (sc features, data', self, lg)))"
  using assms
  by (cases "validate_transaction_data pf data")
     (simp add: prepare_features_def Let_def split: sum.splits)

lemma prepare_features_not_valid:
  assumes "\<forall>m. fst (validate_transaction_data pf data) \<noteq> Inr (True, m)"
  shows "\<exists>e. prepare_features pf self data = (Inl e, data, self, snd (validate_transaction_data pf data))"
  using assms
  by (cases "validate_transaction_data pf data")
     (auto simp: prepare_features_def Let_def split: sum.splits)

lemma prepare_features_assembled:
  assumes valid: "fst (validate_transaction_data pf data) = Inr (True, m)"
      and time: "data ''Time'' = None \<or> (\<exists>v x. data ''Time'' = Some v \<and> py_float pf v = Inr x)"
  shows "\<exists>features.
           fst (prepare_features pf self data) =
             (case scaler self of
                None \<Rightarrow> Inl (ValueError, Scaler_not_loaded) | Some sc \<Rightarrow> sc features)
           \<and> map Inr features =
               (case data ''Time'' of None \<Rightarrow> Inr (Finite 0) | Some v \<Rightarrow> py_float pf v)
               # map (float_item pf data) required_features"
proof -
  define data' where "data' = (if data ''Time'' = None then data(''Time'' \<mapsto> PyInt 0) else data)"
  have req: "\<forall>f\<in>set required_features. \<exists>x. float_item pf data f = Inr x"
    using valid by (simp add: validate_ok_iff)
  have same: "float_item pf data' f = float_item pf data f" if "f \<in> set required_features" for f
  proof -
    have "f \<noteq> ''Time''" using that time_not_required by blast
    then show ?thesis by (intro float_item_cong) (simp add: data'_def)
  qed
  have t: "float_item pf data' ''Time'' =
             (case data ''Time'' of None \<Rightarrow> Inr (Finite 0) | Some v \<Rightarrow> py_float pf v)"
    by (cases "data ''Time''") (simp_all add: data'_def float_item_def getitem_def)
  have "\<exists>x. float_item pf data' ''Time'' = Inr x"
    using time t by auto
  then have all: "\<forall>f\<in>set feature_names. \<exists>x. float_item pf data' f = Inr x"
    using req same by (simp add: feature_names_eq)
  from collect_features_ok [OF all, of "[]"] obtain xs where
    xs: "collect_features pf data' feature_names [] = Inr xs"
        "map Inr xs = map (float_item pf data') feature_names"
    by auto
  have "map (float_item pf data') required_features = map (float_item pf data) required_features"
    using same by simp
  then have order: "map Inr xs =
      (case data ''Time'' of None \<Rightarrow> Inr (Finite 0) | Some v \<Rightarrow> py_float pf v)
      # map (float_item pf data) required_features"
    using xs(2) t by (simp add: feature_names_eq)
  have "prepare_features pf self data =
          (case scaler self of
             None \<Rightarrow>
               (Inl (ValueError, Scaler_not_loaded), data', self,
                snd (validate_transaction_data pf data))
           | Some sc \<Rightarrow> (sc xs, data', self, snd (validate_transaction_data pf data)))"
    unfolding prepare_features_valid [OF valid] Let_def data'_def [symmetric]
    by (simp add: xs(1))
  then have res: "fst (prepare_features pf self data) =
      (case scaler self of None \<Rightarrow> Inl (ValueError, Scaler_not_loaded) | Some sc \<Rightarrow> sc xs)"
    by (simp split: option.splits)
  show ?thesis
    by (rule exI [of _ xs], rule conjI, fact res, fact order)
qed

lemma prepare_features_data:
  "fst (snd (prepare_features pf self data)) =
     (if (\<exists>m. fst (validate_transaction_data pf data) = Inr (True, m)) \<and> data ''Time'' = None
      then data(''Time'' \<mapsto> PyInt 0) else data)"
proof (cases "\<exists>m. fst (validate_transaction_data pf data) = Inr (True, m)")
  case True
  then obtain m where "fst (validate_transaction_data pf data) = Inr (True, m)" by blast
  from prepare_features_valid [OF this] True show ?thesis
    by (simp add: Let_def split: sum.splits option.splits)
next
  case False
  then have "\<forall>m. fst (validate_transaction_data pf data) \<noteq> Inr (True, m)" by blast
  from prepare_features_not_valid [OF this, of self] False show ?thesis by auto
qed

lemma validate_ok_msg:
  "fst (validate_transaction_data pf data) = Inr (True, m) \<Longrightarrow> m = Ok_msg"
  by (simp add: validate_ok_iff)

lemma prepare_features_Inr_valid:
  assumes "fst (prepare_features pf self data) = Inr fs"
  shows "fst (validate_transaction_data pf data) = Inr (True, Ok_msg)"
proof (rule ccontr)
  assume neq: "fst (validate_transaction_data pf data) \<noteq> Inr (True, Ok_msg)"
  have "\<forall>m. fst (validate_transaction_data pf data) \<noteq> Inr (True, m)"
  proof (intro allI notI)
    fix m assume h: "fst (validate_transaction_data pf data) = Inr (True, m)"
    from validate_ok_msg [OF h] h neq show False by simp
  qed
  from prepare_features_not_valid [OF this, of self] obtain e where
    "prepare_features pf self data = (Inl e, data, self, snd (validate_transaction_data pf data))"
    by blast
  with assms show False by simp
qed

section \<open>Prediction: auxiliary facts\<close>

text \<open>No method changes the object it is called on.\<close>

lemma prepare_features_self: "fst (snd (snd (prepare_features pf self data))) = self"
  by (cases "validate_transaction_data pf data")
     (auto simp: prepare_features_def Let_def split: sum.splits option.splits)

lemma preprocessor_same:
  "preprocessor self = Some pp \<Longrightarrow> self\<lparr>preprocessor := Some pp\<rparr> = self"
  by (cases self) simp

lemma predict_probability_self:
  "fst (snd (snd (predict_fraud_probability pf self data))) = self"
proof (cases "model self")
  case None
  then show ?thesis by (simp add: predict_fraud_probability_def)
next
  case (Some clf)
  show ?thesis
  proof (cases "preprocessor self")
    case None
    with Some show ?thesis by (simp add: predict_fraud_probability_def)
  next
    case pp: (Some pp)
    obtain r d' pp' lg where p: "prepare_features pf pp data = (r, d', pp', lg)"
      by (cases "prepare_features pf pp data")
    have "pp' = pp" using prepare_features_self [of pf pp data] p by simp
    then have "self\<lparr>preprocessor := Some pp'\<rparr> = self"
      using pp by (simp add: preprocessor_same)
    then show ?thesis
      using Some pp p
      by (cases r) (auto simp: predict_fraud_probability_def split: sum.splits)
  qed
qed

lemma predict_fraud_class_self:
  "fst (snd (snd (predict_fraud_class pf self data t))) = self"
  using predict_probability_self [of pf self data]
  by (cases "predict_fraud_probability pf self data")
     (auto simp: predict_fraud_class_def split: sum.splits)

lemma predict_with_details_self:
  "fst (snd (snd (predict_with_details pf self data t))) = self"
proof (cases "preprocessor self")
  case None
  then show ?thesis by (simp add: predict_with_details_def)
next
  case (Some pp)
  obtain res lg where v: "validate_transaction_data pf data = (res, lg)"
    by (cases "validate_transaction_data pf data")
  obtain r d' self' lg' where p: "predict_fraud_probability pf self data = (r, d', self', lg')"
    by (cases "predict_fraud_probability pf self data")
  have "self' = self" using predict_probability_self [of pf self data] p by simp
  then show ?thesis
    using Some v p
    by (cases res; cases r) (auto simp: predict_with_details_def Let_def)
qed

lemma batch_loop_Cons:
  "batch_loop pf self t i (tx # txs) =
     ((i, fst (predict_with_details pf self tx t)) # fst (batch_loop pf self t (Suc i) txs),
      fst (snd (predict_with_details pf self tx t)) # fst (snd (batch_loop pf self t (Suc i) txs)),
      fst (snd (snd (batch_loop pf self t (Suc i) txs))),
      snd (snd (snd (predict_with_details pf self tx t)))
        @ snd (snd (snd (batch_loop pf self t (Suc i) txs))))"
proof -
  obtain r d' self' lg where p: "predict_with_details pf self tx t = (r, d', self', lg)"
    by (cases "predict_with_details pf self tx t")
  have "self' = self" using predict_with_details_self [of pf self tx t] p by simp
  then show ?thesis
    using p by (cases "batch_loop pf self t (Suc i) txs") simp
qed

lemma batch_loop_self: "fst (snd (snd (batch_loop pf self t i txs))) = self"
  by (induction txs arbitrary: i) (simp_all add: batch_loop_Cons del: batch_loop.simps(2))

lemma batch_predict_self: "fst (snd (snd (batch_predict pf self txs t))) = self"
  by (simp add: batch_predict_def batch_loop_self)

lemma predict_probability_Inr:
  assumes "fst (predict_fraud_probability pf self data) = Inr p"
  shows "\<exists>clf pp fs. model self = Some clf \<and> preprocessor self = Some pp
           \<and> fst (prepare_features pf pp data) = Inr fs \<and> clf fs = Inr p"
  using assms
  by (cases "model self"; cases "preprocessor self")
     (auto simp: predict_fraud_probability_def split: prod.splits sum.splits)

lemma predict_probability_valid:
  assumes "fst (predict_fraud_probability pf self data) = Inr p"
  shows "fst (validate_transaction_data pf data) = Inr (True, Ok_msg)"
  using predict_probability_Inr [OF assms] prepare_features_Inr_valid by blast

lemma predict_probability_data:
  "fst (snd (predict_fraud_probability pf self data)) =
     (if model self \<noteq> None \<and> preprocessor self \<noteq> None
         \<and> fst (validate_transaction_data pf data) = Inr (True, Ok_msg) \<and> data ''Time'' = None
      then data(''Time'' \<mapsto> PyInt 0) else data)"
proof (cases "model self")
  case None
  then show ?thesis by (simp add: predict_fraud_probability_def)
next
  case (Some clf)
  show ?thesis
  proof (cases "preprocessor self")
    case None
    with Some show ?thesis by (simp add: predict_fraud_probability_def)
  next
    case pp: (Some pp)
    have "fst (snd (predict_fraud_probability pf self data)) = fst (snd (prepare_features pf pp data))"
      using Some pp by (simp add: predict_fraud_probability_def split: prod.splits sum.splits)
    moreover have "(\<exists>m. fst (validate_transaction_data pf data) = Inr (True, m))
        \<longleftrightarrow> fst (validate_transaction_data pf data) = Inr (True, Ok_msg)"
      using validate_ok_msg by blast
    ultimately show ?thesis using Some pp by (simp add: prepare_features_data)
  qed
qed

lemma predict_with_details_scored:
  assumes scored: "fst (predict_fraud_probability pf self data) = Inr p"
  shows "fst (predict_with_details pf self data t) =
           Prediction (py_round p 4) (fl_le t (Finite p)) (py_round (max p (1 - p)) 4)
             (if p < 0.1 then Very_low else if p < 0.3 then Low else if p < 0.7 then Medium
              else if p < 0.9 then High else Very_high)
             t (metrics_get (metrics self) ''model_name'', metrics_get (metrics self) ''roc_auc'')"
proof -
  obtain pp where pp: "preprocessor self = Some pp"
    using predict_probability_Inr [OF scored] by blast
  obtain lg where v: "validate_transaction_data pf data = (Inr (True, Ok_msg), lg)"
    using predict_probability_valid [OF scored]
    by (cases "validate_transaction_data pf data") simp
  obtain d' self' lg' where s: "predict_fraud_probability pf self data = (Inr p, d', self', lg')"
    using scored by (cases "predict_fraud_probability pf self data") auto
  have "self' = self" using predict_probability_self [of pf self data] s by simp
  then show ?thesis
    by (simp add: predict_with_details_def pp v s Let_def)
qed

lemma predict_with_details_invalid:
  assumes "preprocessor self = Some pp"
      and "fst (validate_transaction_data pf data) = Inr (False, msg)"
  shows "predict_with_details pf self data t =
           (Error_payload msg, data, self, snd (validate_transaction_data pf data))"
  using assms
  by (cases "validate_transaction_data pf data") (simp add: predict_with_details_def)

lemma predict_with_details_raised:
  assumes "preprocessor self = Some pp"
      and "fst (validate_transaction_data pf data) = Inr (True, m)"
      and "fst (predict_fraud_probability pf self data) = Inl e"
  shows "fst (predict_with_details pf self data t) = Error_payload (snd e)"
  using assms
  by (cases "validate_transaction_data pf data"; cases "predict_fraud_probability pf self data")
     (simp add: predict_with_details_def str_exn_def)

lemma predict_with_details_error_or_scored:
  "(\<exists>msg. fst (predict_with_details pf self data t) = Error_payload msg)
   \<or> (\<exists>p. fst (predict_fraud_probability pf self data) = Inr p)"
  by (cases "preprocessor self"; cases "validate_transaction_data pf data";
      cases "predict_fraud_probability pf self data")
     (auto simp: predict_with_details_def Let_def split: sum.splits)

lemma predict_with_details_data:
  "fst (snd (predict_with_details pf self data t)) =
     (if model self \<noteq> None \<and> preprocessor self \<noteq> None
         \<and> fst (validate_transaction_data pf data) = Inr (True, Ok_msg) \<and> data ''Time'' = None
      then data(''Time'' \<mapsto> PyInt 0) else data)"
proof (cases "preprocessor self")
  case None
  then show ?thesis by (simp add: predict_with_details_def)
next
  case (Some pp)
  show ?thesis
  proof (cases "fst (validate_transaction_data pf data) = Inr (True, Ok_msg)")
    case True
    then obtain lg where v: "validate_transaction_data pf data = (Inr (True, Ok_msg), lg)"
      by (cases "validate_transaction_data pf data") simp
    have "fst (snd (predict_with_details pf self data t)) =
            fst (snd (predict_fraud_probability pf self data))"
      by (simp add: predict_with_details_def Some v Let_def split: prod.splits sum.splits)
    then show ?thesis using True Some by (simp add: predict_probability_data)
  next
    case False
    have "fst (snd (predict_with_details pf self data t)) = data"
    proof (cases "validate_transaction_data pf data")
      case (Pair r lg)
      show ?thesis
      proof (cases r)
        case (Inl e)
        then show ?thesis by (simp add: predict_with_details_def Some Pair)
      next
        case (Inr vm)
        obtain ok m where vm: "vm = (ok, m)" by (cases vm)
        have "\<not> ok"
        proof
          assume ok
          then have "fst (validate_transaction_data pf data) = Inr (True, m)"
            using Pair Inr vm by simp
          from validate_ok_msg [OF this] this False show False by simp
        qed
        then show ?thesis by (simp add: predict_with_details_def Some Pair Inr vm)
      qed
    qed
    then show ?thesis using False by simp
  qed
qed

section \<open>Rounding: auxiliary facts\<close>




section \<open>The example transaction\<close>

lemma sample_coercible:
  "\<forall>f\<in>set required_features. \<exists>x. float_item pf create_sample_transaction f = Inr x"
  by (simp add: required_features_def float_item_def getitem_def create_sample_transaction_def)

lemma sample_amount:
  "float_item pf create_sample_transaction ''Amount'' = Inr (Finite 149.62)"
  by (simp add: float_item_def getitem_def create_sample_transaction_def)

lemma sample_time: "create_sample_transaction ''Time'' = None"
  by (simp add: create_sample_transaction_def)

lemma sample_valid:
  "validate_transaction_data pf create_sample_transaction = (Inr (True, Ok_msg), [])"
  by (simp add: validate_coercible [OF sample_coercible sample_amount])


lemma predict_probability_assembled:
  assumes "model self = Some clf" and "preprocessor self = Some pp"
      and "fst (prepare_features pf pp data) = Inr fs"
  shows "fst (predict_fraud_probability pf self data) = clf fs"
  using assms
  by (cases "prepare_features pf pp data"; cases "clf fs")
     (auto simp: predict_fraud_probability_def split: prod.splits sum.splits)

lemma example_scored:
  "fst (predict_fraud_probability pf (example_model p) create_sample_transaction) = Inr p"
proof -
  have v: "fst (validate_transaction_data pf create_sample_transaction) = Inr (True, Ok_msg)"
    by (simp add: sample_valid)
  obtain fs where
    "fst (prepare_features pf \<lparr>scaler = Some Inr\<rparr> create_sample_transaction) = Inr fs"
    using prepare_features_assembled [OF v, of "\<lparr>scaler = Some Inr\<rparr>"] sample_time by auto
  from predict_probability_assembled [OF _ _ this, of "example_model p" "\<lambda>features. Inr p"]
  show ?thesis by (simp add: example_model_def)
qed

section \<open>The fraud decision\<close>

text \<open>
  Claim C8. Whenever a transaction is scored with probability \<open>p\<close>, the decision
  \<open>is_fraud\<close> reported by \<open>predict_with_details\<close> for a threshold \<open>t\<close>, and the class
  returned by \<open>predict_fraud_class\<close>, are both \<open>p >= t\<close>: true exactly when the
  probability is at least the threshold, so that \<open>p = t\<close> is fraud.
\<close>

theorem fraud_decision:
  assumes "fst (predict_fraud_probability pf self data) = Inr p"
  shows "get_is_fraud (fst (predict_with_details pf self data (Finite t))) = Some (t \<le> p)
       \<and> fst (predict_fraud_class pf self data (Finite t)) = Inr (t \<le> p)"
proof -
  obtain d' self' lg' where s: "predict_fraud_probability pf self data = (Inr p, d', self', lg')"
    using assms by (cases "predict_fraud_probability pf self data") auto
  have "fst (predict_fraud_class pf self data (Finite t)) = Inr (t \<le> p)"
    by (simp add: predict_fraud_class_def s)
  then show ?thesis
    by (simp add: predict_with_details_scored [OF assms])
qed

text \<open>
  The example transaction scored at 0.5 with threshold 0.5 is fraud; scored at
  0.49 it is not.
\<close>

theorem fraud_decision_witness:
  "get_is_fraud (fst (predict_with_details example_parser (example_model (1 / 2))
       create_sample_transaction (Finite (1 / 2)))) = Some True
   \<and> fst (predict_fraud_class example_parser (example_model (1 / 2))
       create_sample_transaction (Finite (1 / 2))) = Inr True
   \<and> get_is_fraud (fst (predict_with_details example_parser (example_model (49 / 100))
       create_sample_transaction (Finite (1 / 2)))) = Some False"
  using fraud_decision [OF example_scored [of example_parser "1 / 2"], of "1 / 2"]
        fraud_decision [OF example_scored [of example_parser "49 / 100"], of "1 / 2"]
  by simp

section \<open>The risk tier\<close>

text \<open>
  Claim C2. For a transaction scored with a probability \<open>p\<close> in \<open>[0, 1]\<close>, the risk
  level reported by \<open>predict_with_details\<close> is very low on \<open>[0, 0.1)\<close>, low on
  \<open>[0.1, 0.3)\<close>, medium on \<open>[0.3, 0.7)\<close>, high on \<open>[0.7, 0.9)\<close> and very high on
  \<open>[0.9, 1]\<close>, so each boundary belongs to the higher tier. For a second call,
  with any other model, transaction and threshold, scored with \<open>q\<close>: if
  \<open>p \<le> q\<close> the tier of the second is not lower, and if \<open>p = q\<close> the two tiers are
  the same whatever the two thresholds are.
\<close>

theorem risk_tier_bands:
  assumes "fst (predict_fraud_probability pf self data) = Inr p" and "0 \<le> p" and "p \<le> 1"
      and "fst (predict_fraud_probability pf' self' data') = Inr q" and "0 \<le> q" and "q \<le> 1"
  shows "\<exists>r s. get_risk_level (fst (predict_with_details pf self data t)) = Some r
           \<and> get_risk_level (fst (predict_with_details pf' self' data' t')) = Some s
           \<and> (r = Very_low \<longleftrightarrow> 0 \<le> p \<and> p < 0.1)
           \<and> (r = Low \<longleftrightarrow> 0.1 \<le> p \<and> p < 0.3)
           \<and> (r = Medium \<longleftrightarrow> 0.3 \<le> p \<and> p < 0.7)
           \<and> (r = High \<longleftrightarrow> 0.7 \<le> p \<and> p < 0.9)
           \<and> (r = Very_high \<longleftrightarrow> 0.9 \<le> p \<and> p \<le> 1)
           \<and> (p \<le> q \<longrightarrow> risk_rank r \<le> risk_rank s)
           \<and> (p = q \<longrightarrow> r = s)"
  using assms(2,3,5,6)
  by (simp add: predict_with_details_scored [OF assms(1)]
                predict_with_details_scored [OF assms(4)])

text \<open>
  The example transaction scored exactly at the four boundaries, under different
  thresholds.
\<close>

theorem risk_tier_bands_witness:
  "get_risk_level (fst (predict_with_details example_parser (example_model (1 / 10))
      create_sample_transaction (Finite (1 / 2)))) = Some Low
   \<and> get_risk_level (fst (predict_with_details example_parser (example_model (3 / 10))
      create_sample_transaction (Finite (9 / 10)))) = Some Medium
   \<and> get_risk_level (fst (predict_with_details example_parser (example_model (7 / 10))
      create_sample_transaction (Finite 0))) = Some High
   \<and> get_risk_level (fst (predict_with_details example_parser (example_model (9 / 10))
      create_sample_transaction (Finite 1))) = Some Very_high"
  using
    risk_tier_bands [OF example_scored [of example_parser "1 / 10"] _ _
       example_scored [of example_parser "3 / 10"], of "Finite (1 / 2)" "Finite (9 / 10)"]
    risk_tier_bands [OF example_scored [of example_parser "3 / 10"] _ _
       example_scored [of example_parser "7 / 10"], of "Finite (9 / 10)" "Finite 0"]
    risk_tier_bands [OF example_scored [of example_parser "7 / 10"] _ _
       example_scored [of example_parser "9 / 10"], of "Finite 0" "Finite 1"]
    risk_tier_bands [OF example_scored [of example_parser "9 / 10"] _ _
       example_scored [of example_parser "9 / 10"], of "Finite 1" "Finite 1"]
  by auto

section \<open>The confidence\<close>




section \<open>Validation never reads \<open>Time\<close>\<close>

lemma validate_time_irrelevant:
  "validate_transaction_data pf (data(''Time'' := x)) = validate_transaction_data pf data"
proof -
  have same: "(data(''Time'' := x)) f = data f" if "f \<in> set required_features" for f
    using that time_not_required by auto
  have "filter (\<lambda>f. (data(''Time'' := x)) f = None) required_features
          = filter (\<lambda>f. data f = None) required_features"
    by (rule filter_cong) (simp_all add: same del: fun_upd_apply)
  moreover have "check_types pf (data(''Time'' := x)) required_features
          = check_types pf data required_features"
    by (rule check_types_cong) (simp add: same del: fun_upd_apply)
  moreover have "float_item pf (data(''Time'' := x)) ''Amount'' = float_item pf data ''Amount''"
    by (rule float_item_cong) (simp add: same amount_required del: fun_upd_apply)
  ultimately show ?thesis
    by (simp only: validate_transaction_data_def)
qed

lemma coercible_upd:
  assumes "\<forall>f\<in>set fs. \<exists>x. float_item pf data f = Inr x" and "py_float pf v = Inr y"
  shows "\<forall>f\<in>set fs. \<exists>x. float_item pf (data(k \<mapsto> v)) f = Inr x"
  using assms by (auto simp: float_item_def getitem_def)

lemma float_item_upd: "float_item pf (data(k \<mapsto> v)) k = py_float pf v"
  by (simp add: float_item_def getitem_def)

lemma prepare_features_time_fails:
  assumes valid: "fst (validate_transaction_data pf data) = Inr (True, m)"
      and time: "data ''Time'' = Some v" and bad: "py_float pf v = Inl e"
  shows "prepare_features pf self data = (Inl e, data, self, snd (validate_transaction_data pf data))"
proof -
  have "float_item pf data ''Time'' = Inl e"
    using time bad by (simp add: float_item_Some)
  from collect_features_fail [of "[]" pf data "''Time''" e required_features "[]", OF _ this]
  have "collect_features pf data feature_names [] = Inl e"
    by (simp add: feature_names_eq)
  then show ?thesis
    using time by (simp add: prepare_features_valid [OF valid])
qed

section \<open>The amount check\<close>

text \<open>
  Claim C5. Let \<open>amount\<close> be the float that \<open>float(data['Amount'])\<close> yields. A record
  whose amount is negative is never accepted. When all 29 required fields are
  present and convert to floats: a negative amount is rejected with the
  "cannot be negative" message; the amounts 0 and 100000 are accepted and nothing
  is logged; an amount above 100000 is accepted, one warning carrying the amount
  is logged, and (with no \<open>Time\<close> key and a loaded scaler) the row handed to the
  scaler has 30 entries and ends with that same amount, uncapped.
\<close>

theorem amount_range_check:
  assumes "float_item pf data ''Amount'' = Inr amount"
  shows "(fl_less amount (Finite 0) \<longrightarrow>
            (\<forall>m. fst (validate_transaction_data pf data) \<noteq> Inr (True, m)))
       \<and> ((\<forall>f\<in>set required_features. \<exists>x. float_item pf data f = Inr x) \<longrightarrow>
            (fl_less amount (Finite 0) \<longrightarrow>
               validate_transaction_data pf data = (Inr (False, Negative_amount), []))
          \<and> (amount = Finite 0 \<or> amount = Finite 100000 \<longrightarrow>
               validate_transaction_data pf data = (Inr (True, Ok_msg), []))
          \<and> (fl_less (Finite 100000) amount \<longrightarrow>
               validate_transaction_data pf data
                 = (Inr (True, Ok_msg), [(WARNING, Large_amount amount)])
               \<and> (data ''Time'' = None \<longrightarrow>
                    (\<exists>features. fst (prepare_features pf \<lparr>scaler = Some sc\<rparr> data) = sc features
                       \<and> length features = 30 \<and> last features = amount))))"
proof (intro conjI impI allI)
  fix m
  assume "fl_less amount (Finite 0)"
  then show "fst (validate_transaction_data pf data) \<noteq> Inr (True, m)"
    using assms by (auto simp: validate_ok_iff)
next
  assume "\<forall>f\<in>set required_features. \<exists>x. float_item pf data f = Inr x" "fl_less amount (Finite 0)"
  then show "validate_transaction_data pf data = (Inr (False, Negative_amount), [])"
    using assms by (simp add: validate_coercible)
next
  assume "\<forall>f\<in>set required_features. \<exists>x. float_item pf data f = Inr x"
    "amount = Finite 0 \<or> amount = Finite 100000"
  then show "validate_transaction_data pf data = (Inr (True, Ok_msg), [])"
    using assms by (auto simp: validate_coercible)
next
  assume all: "\<forall>f\<in>set required_features. \<exists>x. float_item pf data f = Inr x"
     and big: "fl_less (Finite 100000) amount"
  have nonneg: "\<not> fl_less amount (Finite 0)"
    using big by (cases amount) auto
  then show v: "validate_transaction_data pf data
                 = (Inr (True, Ok_msg), [(WARNING, Large_amount amount)])"
    using all big assms by (simp add: validate_coercible)
  assume time: "data ''Time'' = None"
  have valid: "fst (validate_transaction_data pf data) = Inr (True, Ok_msg)"
    by (simp add: v)
  from prepare_features_assembled [OF valid, of "\<lparr>scaler = Some sc\<rparr>"] time
  obtain features where
    res: "fst (prepare_features pf \<lparr>scaler = Some sc\<rparr> data) = sc features"
    and order: "map Inr features = Inr (Finite 0) # map (float_item pf data) required_features"
    by auto
  have len: "length features = 30"
    using arg_cong [OF order, of length] by (simp add: required_features_def)
  have "last (map Inr features) = float_item pf data ''Amount''"
    unfolding order by (simp add: required_features_def)
  moreover have "features \<noteq> []" using len by auto
  ultimately have "Inr (last features) = (Inr amount :: exn + pyfloat)"
    using assms by (simp add: last_map)
  then have "last features = amount" by simp
  with res len
  show "\<exists>features. fst (prepare_features pf \<lparr>scaler = Some sc\<rparr> data) = sc features
          \<and> length features = 30 \<and> last features = amount"
    by blast
qed

text \<open>
  The example transaction with the amounts -1, 0, 100000 and 250000; the last
  one reaches the (identity) scaler as the 30th entry.
\<close>

theorem amount_range_check_witness:
  "validate_transaction_data example_parser (create_sample_transaction(''Amount'' \<mapsto> PyInt (- 1)))
     = (Inr (False, Negative_amount), [])
   \<and> validate_transaction_data example_parser (create_sample_transaction(''Amount'' \<mapsto> PyInt 0))
     = (Inr (True, Ok_msg), [])
   \<and> validate_transaction_data example_parser
        (create_sample_transaction(''Amount'' \<mapsto> PyInt 100000))
     = (Inr (True, Ok_msg), [])
   \<and> validate_transaction_data example_parser
        (create_sample_transaction(''Amount'' \<mapsto> PyFloat (Finite 250000)))
     = (Inr (True, Ok_msg), [(WARNING, Large_amount (Finite 250000))])
   \<and> (\<exists>features. fst (prepare_features example_parser \<lparr>scaler = Some Inr\<rparr>
                        (create_sample_transaction(''Amount'' \<mapsto> PyFloat (Finite 250000))))
                    = Inr features
         \<and> length features = 30 \<and> last features = Finite 250000)"
proof -
  have c: "\<forall>f\<in>set required_features.
             \<exists>x. float_item example_parser (create_sample_transaction(''Amount'' \<mapsto> v)) f = Inr x"
    if "py_float example_parser v = Inr y" for v y
    using coercible_upd [OF sample_coercible that] by blast
  have t: "(create_sample_transaction(''Amount'' \<mapsto> v)) ''Time'' = None" for v
    by (simp add: sample_time)
  have 1: "py_float example_parser (PyInt (- 1)) = Inr (Finite (- 1))" by simp
  have 2: "py_float example_parser (PyInt 0) = Inr (Finite 0)" by simp
  have 3: "py_float example_parser (PyInt 100000) = Inr (Finite 100000)" by simp
  have 4: "py_float example_parser (PyFloat (Finite 250000)) = Inr (Finite 250000)" by simp
  show ?thesis
    using
      amount_range_check [of example_parser "create_sample_transaction(''Amount'' \<mapsto> PyInt (- 1))"
        "Finite (- 1)" Inr]
      amount_range_check [of example_parser "create_sample_transaction(''Amount'' \<mapsto> PyInt 0)"
        "Finite 0" Inr]
      amount_range_check [of example_parser "create_sample_transaction(''Amount'' \<mapsto> PyInt 100000)"
        "Finite 100000" Inr]
      amount_range_check [of example_parser
        "create_sample_transaction(''Amount'' \<mapsto> PyFloat (Finite 250000))" "Finite 250000" Inr]
      c [OF 1] c [OF 2] c [OF 3] c [OF 4]
    by (simp only: float_item_upd 1 2 3 4 t) simp
qed

section \<open>The order of the assembled features\<close>

text \<open>
  Claim C1, as stated: every record that passes validation is assembled into a
  row of 30 numbers. It is not: validation does not look at \<open>Time\<close>, and a record
  that passes it with \<open>"Time": null\<close> makes \<open>prepare_features\<close> raise the
  \<open>TypeError\<close> of \<open>float(None)\<close>.
\<close>

theorem feature_assembly_fails_on_time:
  "fst (validate_transaction_data example_parser (create_sample_transaction(''Time'' \<mapsto> PyNone)))
     = Inr (True, Ok_msg)
   \<and> fst (prepare_features example_parser \<lparr>scaler = Some Inr\<rparr>
            (create_sample_transaction(''Time'' \<mapsto> PyNone)))
     = Inl (TypeError, Float_type_error)"
proof -
  have v: "fst (validate_transaction_data example_parser
                  (create_sample_transaction(''Time'' \<mapsto> PyNone))) = Inr (True, Ok_msg)"
    by (simp only: validate_time_irrelevant sample_valid fst_conv)
  from prepare_features_time_fails [OF v, of PyNone "(TypeError, Float_type_error)"]
  show ?thesis using v by simp
qed

text \<open>
  Claim C1, amended. For every record that passes validation and whose \<open>Time\<close>,
  when present, converts to a float, \<open>prepare_features\<close> (with a loaded scaler)
  hands the scaler a row of exactly 30 floats: first \<open>float(data['Time'])\<close>, or 0
  when the key is absent, then the floats of \<open>V1\<close>, ..., \<open>V28\<close> in ascending index
  order, then the float of \<open>Amount\<close>; what it returns is the scaler's result on
  that row.
\<close>

theorem feature_order:
  assumes "fst (validate_transaction_data pf data) = Inr (True, Ok_msg)"
      and "data ''Time'' = None \<or> (\<exists>v x. data ''Time'' = Some v \<and> py_float pf v = Inr x)"
      and "scaler self = Some sc"
  shows "\<exists>features.
           fst (prepare_features pf self data) = sc features
           \<and> length features = 30
           \<and> map Inr features =
               [case data ''Time'' of None \<Rightarrow> Inr (Finite 0) | Some v \<Rightarrow> py_float pf v,
                float_item pf data ''V1'',
                float_item pf data ''V2'',
                float_item pf data ''V3'',
                float_item pf data ''V4'',
                float_item pf data ''V5'',
                float_item pf data ''V6'',
                float_item pf data ''V7'',
                float_item pf data ''V8'',
                float_item pf data ''V9'',
                float_item pf data ''V10'',
                float_item pf data ''V11'',
                float_item pf data ''V12'',
                float_item pf data ''V13'',
                float_item pf data ''V14'',
                float_item pf data ''V15'',
                float_item pf data ''V16'',
                float_item pf data ''V17'',
                float_item pf data ''V18'',
                float_item pf data ''V19'',
                float_item pf data ''V20'',
                float_item pf data ''V21'',
                float_item pf data ''V22'',
                float_item pf data ''V23'',
                float_item pf data ''V24'',
                float_item pf data ''V25'',
                float_item pf data ''V26'',
                float_item pf data ''V27'',
                float_item pf data ''V28'',
                float_item pf data ''Amount'']"
proof -
  from prepare_features_assembled [OF assms(1,2), of self] assms(3)
  obtain features where
    res: "fst (prepare_features pf self data) = sc features"
    and order: "map Inr features =
      (case data ''Time'' of None \<Rightarrow> Inr (Finite 0) | Some v \<Rightarrow> py_float pf v)
      # map (float_item pf data) required_features"
    by auto
  have len: "length features = 30"
    using arg_cong [OF order, of length] by (simp add: required_features_def)
  show ?thesis
    by (rule exI [of _ features]) (simp add: res len order required_features_def)
qed

text \<open>
  The example transaction, which has no \<open>Time\<close>, through the identity scaler: the
  row starts with 0, continues with \<open>V1\<close> and ends with the amount 149.62.
\<close>

theorem feature_order_witness:
  "\<exists>features.
     fst (prepare_features example_parser \<lparr>scaler = Some Inr\<rparr> create_sample_transaction)
       = Inr features
     \<and> length features = 30
     \<and> features ! 0 = Finite 0
     \<and> features ! 1 = Finite (- 1.3598071336738)
     \<and> features ! 29 = Finite 149.62"
proof -
  have v: "fst (validate_transaction_data example_parser create_sample_transaction)
             = Inr (True, Ok_msg)"
    by (simp add: sample_valid)
  have t: "create_sample_transaction ''Time'' = None
             \<or> (\<exists>v x. create_sample_transaction ''Time'' = Some v
                      \<and> py_float example_parser v = Inr x)"
    by (simp add: sample_time)
  have s: "scaler \<lparr>scaler = Some Inr\<rparr> = Some Inr" by simp
  from feature_order [OF v t s] obtain features :: "pyfloat list" where
    res: "fst (prepare_features example_parser \<lparr>scaler = Some Inr\<rparr> create_sample_transaction)
            = Inr features"
    and len: "length features = 30"
    and order: "map (Inr :: pyfloat \<Rightarrow> exn + pyfloat) features =
       [Inr (Finite 0), float_item example_parser create_sample_transaction ''V1'',
        float_item example_parser create_sample_transaction ''V2'',
        float_item example_parser create_sample_transaction ''V3'',
        float_item example_parser create_sample_transaction ''V4'',
        float_item example_parser create_sample_transaction ''V5'',
        float_item example_parser create_sample_transaction ''V6'',
        float_item example_parser create_sample_transaction ''V7'',
        float_item example_parser create_sample_transaction ''V8'',
        float_item example_parser create_sample_transaction ''V9'',
        float_item example_parser create_sample_transaction ''V10'',
        float_item example_parser create_sample_transaction ''V11'',
        float_item example_parser create_sample_transaction ''V12'',
        float_item example_parser create_sample_transaction ''V13'',
        float_item example_parser create_sample_transaction ''V14'',
        float_item example_parser create_sample_transaction ''V15'',
        float_item example_parser create_sample_transaction ''V16'',
        float_item example_parser create_sample_transaction ''V17'',
        float_item example_parser create_sample_transaction ''V18'',
        float_item example_parser create_sample_transaction ''V19'',
        float_item example_parser create_sample_transaction ''V20'',
        float_item example_parser create_sample_transaction ''V21'',
        float_item example_parser create_sample_transaction ''V22'',
        float_item example_parser create_sample_transaction ''V23'',
        float_item example_parser create_sample_transaction ''V24'',
        float_item example_parser create_sample_transaction ''V25'',
        float_item example_parser create_sample_transaction ''V26'',
        float_item example_parser create_sample_transaction ''V27'',
        float_item example_parser create_sample_transaction ''V28'',
        float_item example_parser create_sample_transaction ''Amount'']"
    by (auto simp: sample_time)
  have "(Inr (features ! 0) :: exn + pyfloat) = map Inr features ! 0"
    using len by simp
  also have "\<dots> = Inr (Finite 0)"
    unfolding order by simp
  finally have f0: "features ! 0 = Finite 0" by (simp only: sum.inject)
  have "(Inr (features ! 1) :: exn + pyfloat) = map Inr features ! 1"
    using len by simp
  also have "\<dots> = float_item example_parser create_sample_transaction ''V1''"
    unfolding order by simp
  also have "\<dots> = Inr (Finite (- 1.3598071336738))"
    by (simp add: float_item_def getitem_def create_sample_transaction_def)
  finally have f1: "features ! 1 = Finite (- 1.3598071336738)" by (simp only: sum.inject)
  have "(Inr (features ! 29) :: exn + pyfloat) = map Inr features ! 29"
    using len by simp
  also have "\<dots> = float_item example_parser create_sample_transaction ''Amount''"
    unfolding order by simp
  also have "\<dots> = Inr (Finite 149.62)"
    by (simp add: sample_amount)
  finally have f29: "features ! 29 = Finite 149.62" by (simp only: sum.inject)
  show ?thesis
    by (intro exI [of _ features] conjI res len f0 f1 f29)
qed

section \<open>What a prediction writes\<close>

lemma predict_fraud_class_data:
  "fst (snd (predict_fraud_class pf self data t)) = fst (snd (predict_fraud_probability pf self data))"
  by (cases "predict_fraud_probability pf self data")
     (auto simp: predict_fraud_class_def split: sum.splits)

lemma batch_loop_dicts_Cons:
  "fst (snd (batch_loop pf self t i (tx # txs))) =
     fst (snd (predict_with_details pf self tx t)) # fst (snd (batch_loop pf self t (Suc i) txs))"
  by (simp add: batch_loop_Cons del: batch_loop.simps(2))

lemma batch_loop_dicts:
  "fst (snd (batch_loop pf self t i txs)) =
     map (\<lambda>data. fst (snd (predict_with_details pf self data t))) txs"
  by (induction txs arbitrary: i)
     (simp_all add: batch_loop_dicts_Cons del: batch_loop.simps(2))

lemma get_model_cases:
  "(\<exists>e lg. get_model load g = (Inl e, None, lg) \<and> singleton_after load g = None)
   \<or> (\<exists>m lg. get_model load g = (Inr m, Some m, lg) \<and> singleton_after load g = Some m)"
  by (cases g; cases load; cases "fst load") (auto simp: get_model_def)

lemma predict_fraud_frame:
  "fst (snd (snd (predict_fraud pf load g data t))) = singleton_after load g
   \<and> fst (snd (predict_fraud pf load g data t)) =
       (case singleton_after load g of None \<Rightarrow> data | Some m \<Rightarrow> after_prediction pf m data)"
proof -
  from get_model_cases [of load g] show ?thesis
  proof (elim disjE exE conjE)
    fix e lg
    assume "get_model load g = (Inl e, None, lg)" and "singleton_after load g = None"
    then show ?thesis by (simp add: predict_fraud_def)
  next
    fix m lg
    assume gm: "get_model load g = (Inr m, Some m, lg)" and sa: "singleton_after load g = Some m"
    obtain r d' m' lg' where pwd: "predict_with_details pf m data t = (r, d', m', lg')"
      by (cases "predict_with_details pf m data t")
    have "d' = after_prediction pf m data"
      using predict_with_details_data [of pf m data t] pwd by simp
    moreover have "m' = m"
      using predict_with_details_self [of pf m data t] pwd by simp
    ultimately show ?thesis
      using sa by (simp add: predict_fraud_def gm pwd)
  qed
qed

lemma validate_and_predict_frame:
  "fst (snd (snd (validate_and_predict pf load g data t))) =
     (if fst (validate_transaction_data pf data) = Inr (True, Ok_msg)
      then singleton_after load g else g)
   \<and> fst (snd (validate_and_predict pf load g data t)) =
       (if fst (validate_transaction_data pf data) = Inr (True, Ok_msg)
        then (case singleton_after load g of None \<Rightarrow> data | Some m \<Rightarrow> after_prediction pf m data)
        else data)"
proof (cases "fst (validate_transaction_data pf data) = Inr (True, Ok_msg)")
  case True
  then obtain lg where v: "validate_transaction_data pf data = (Inr (True, Ok_msg), lg)"
    by (cases "validate_transaction_data pf data") simp
  obtain r d' g' lg' where pf': "predict_fraud pf load g data t = (r, d', g', lg')"
    by (cases "predict_fraud pf load g data t")
  have "g' = singleton_after load g"
    and "d' = (case singleton_after load g of
                 None \<Rightarrow> data | Some m \<Rightarrow> after_prediction pf m data)"
    using predict_fraud_frame [of pf load g data t] pf' by simp_all
  then show ?thesis
    using True by (cases r) (simp_all add: validate_and_predict_def v pf')
next
  case False
  obtain res lg where v: "validate_transaction_data pf data = (res, lg)"
    by (cases "validate_transaction_data pf data")
  show ?thesis
  proof (cases res)
    case (Inl e)
    with False show ?thesis by (simp add: validate_and_predict_def v)
  next
    case (Inr vm)
    obtain ok msg where vm: "vm = (ok, msg)" by (cases vm)
    have "\<not> ok"
    proof
      assume ok
      then have "fst (validate_transaction_data pf data) = Inr (True, msg)"
        using v Inr vm by simp
      from validate_ok_msg [OF this] this False show False by simp
    qed
    with False show ?thesis by (simp add: validate_and_predict_def v Inr vm)
  qed
qed

lemma api_predict_singleton:
  "fst (snd (api_predict_fraud pf load (Some m) fraud_model req)) = Some m"
proof -
  have vp: "fst (snd (snd (validate_and_predict pf load (Some m) data t))) = Some m" for data t
    using validate_and_predict_frame [of pf load "Some m" data t] by simp
  have tail: "fst (snd (case validate_and_predict pf load (Some m) data t of
                 ((valid, result), data', global_model', lg) \<Rightarrow>
                   if \<not> valid then (a result, global_model', lg)
                   else (b result, global_model', c result lg))) = Some m" for data t a b c
    using vp [of data t]
    by (cases "validate_and_predict pf load (Some m) data t") (auto split: prod.splits)
  show ?thesis
    by (cases fraud_model; cases "is_json req"; cases "json req = Map.empty";
        cases "py_float pf (case json req ''threshold'' of
                 None \<Rightarrow> PyFloat (Finite 0.5) | Some v \<Rightarrow> v)")
       (simp_all add: api_predict_fraud_def Let_def tail)
qed

text \<open>
  Claim C9, as stated: a prediction leaves the caller's record unchanged, no key
  being added, and mutates no shared model state. It does not: the example
  transaction has no \<open>Time\<close> key before \<open>predict_with_details\<close> and has \<open>Time = 0\<close>
  after it; and the module-level \<open>predict_fraud\<close>, called while the singleton
  \<open>_global_model\<close> is still \<open>None\<close>, leaves the loaded model in it.
\<close>

theorem prediction_adds_time:
  "create_sample_transaction ''Time'' = None
   \<and> fst (snd (predict_with_details example_parser (example_model (3 / 10))
                 create_sample_transaction (Finite (1 / 2)))) ''Time'' = Some (PyInt 0)
   \<and> fst (snd (snd (predict_fraud example_parser (example_loader (3 / 10)) None
                 create_sample_transaction (Finite (1 / 2))))) = Some (example_model (3 / 10))"
proof -
  have "fst (snd (snd (predict_fraud example_parser (example_loader (3 / 10)) None
                 create_sample_transaction (Finite (1 / 2))))) = Some (example_model (3 / 10))"
    using predict_fraud_frame [of example_parser "example_loader (3 / 10)" None
            create_sample_transaction "Finite (1 / 2)"]
    by (simp add: example_loader_def)
  then show ?thesis
    by (simp add: predict_with_details_data sample_valid sample_time example_model_def)
qed

text \<open>
  Claim C9, amended. A prediction call leaves the model object unchanged, and the
  caller's record and the shared singleton unchanged except for one write to
  each.

  The caller's record: \<open>prepare_features\<close> adds the key \<open>Time\<close> with value 0 when the
  record passes validation and has no \<open>Time\<close> key. So do \<open>predict_with_details\<close>,
  \<open>predict_fraud_probability\<close>, \<open>predict_fraud_class\<close> and \<open>batch_predict\<close> (for every
  record of the batch) when moreover the model and its preprocessor are loaded,
  and the module-level \<open>predict_fraud\<close> and \<open>validate_and_predict\<close> when the model
  that the singleton holds after the call is. In every other case the record
  after the call is the record before it; no other key is ever added, removed
  or modified.

  The shared singleton \<open>_global_model\<close>: \<open>predict_fraud\<close>, and \<open>validate_and_predict\<close>
  once the record has passed validation, store the model that the constructor
  loads when the singleton is still \<open>None\<close> (nothing when the constructor raises).
  Once the singleton is loaded, \<open>predict_fraud\<close>, \<open>validate_and_predict\<close> and the
  \<open>/predict\<close> handler leave it holding the model it held, as it was.

  The model object: \<open>predict_with_details\<close>, \<open>predict_fraud_probability\<close>,
  \<open>predict_fraud_class\<close> and \<open>batch_predict\<close> leave the model they are called on,
  and \<open>prepare_features\<close> the preprocessor, as it was before the call (the
  scaler's \<open>transform\<close> and the classifier's \<open>predict_proba\<close> being functions of
  the row they are given).
\<close>

theorem prediction_frame:
  "fst (snd (predict_with_details pf self data t)) = after_prediction pf self data
   \<and> fst (snd (predict_fraud_probability pf self data)) = after_prediction pf self data
   \<and> (\<forall>k. k \<noteq> ''Time'' \<longrightarrow>
          fst (snd (predict_with_details pf self data t)) k = data k
        \<and> fst (snd (predict_fraud_probability pf self data)) k = data k)
   \<and> (\<forall>v. data ''Time'' = Some v \<longrightarrow>
          fst (snd (predict_with_details pf self data t)) = data
        \<and> fst (snd (predict_fraud_probability pf self data)) = data)
   \<and> fst (snd (predict_fraud_class pf self data t)) = after_prediction pf self data
   \<and> fst (snd (batch_predict pf self txs t)) = map (after_prediction pf self) txs
   \<and> fst (snd (prepare_features pf pp data)) =
       (if fst (validate_transaction_data pf data) = Inr (True, Ok_msg) \<and> data ''Time'' = None
        then data(''Time'' \<mapsto> PyInt 0) else data)
   \<and> fst (snd (snd (predict_fraud pf load g data t))) = singleton_after load g
   \<and> fst (snd (predict_fraud pf load g data t)) =
       (case singleton_after load g of None \<Rightarrow> data | Some m \<Rightarrow> after_prediction pf m data)
   \<and> fst (snd (snd (validate_and_predict pf load g data t))) =
       (if fst (validate_transaction_data pf data) = Inr (True, Ok_msg)
        then singleton_after load g else g)
   \<and> fst (snd (validate_and_predict pf load g data t)) =
       (if fst (validate_transaction_data pf data) = Inr (True, Ok_msg)
        then (case singleton_after load g of None \<Rightarrow> data | Some m \<Rightarrow> after_prediction pf m data)
        else data)
   \<and> fst (snd (snd (predict_fraud pf load (Some m) data t))) = Some m
   \<and> fst (snd (snd (validate_and_predict pf load (Some m) data t))) = Some m
   \<and> fst (snd (api_predict_fraud pf load (Some m) fraud_model req)) = Some m
   \<and> fst (snd (snd (predict_with_details pf self data t))) = self
   \<and> fst (snd (snd (predict_fraud_probability pf self data))) = self
   \<and> fst (snd (snd (predict_fraud_class pf self data t))) = self
   \<and> fst (snd (snd (batch_predict pf self txs t))) = self
   \<and> fst (snd (snd (prepare_features pf pp data))) = pp"
proof -
  have details: "fst (snd (predict_with_details pf self data t)) = after_prediction pf self data"
    by (rule predict_with_details_data)
  have probability:
    "fst (snd (predict_fraud_probability pf self data)) = after_prediction pf self data"
    by (rule predict_probability_data)
  have others: "after_prediction pf self data k = data k" if "k \<noteq> ''Time''" for k
    using that by simp
  have present: "after_prediction pf self data = data" if "data ''Time'' = Some v" for v
    using that by simp
  have "class": "fst (snd (predict_fraud_class pf self data t)) = after_prediction pf self data"
    by (simp only: predict_fraud_class_data probability)
  have batch: "fst (snd (batch_predict pf self txs t)) = map (after_prediction pf self) txs"
    by (simp add: batch_predict_def batch_loop_dicts predict_with_details_data)
  have features: "fst (snd (prepare_features pf pp data)) =
       (if fst (validate_transaction_data pf data) = Inr (True, Ok_msg) \<and> data ''Time'' = None
        then data(''Time'' \<mapsto> PyInt 0) else data)"
  proof -
    have "(\<exists>m. fst (validate_transaction_data pf data) = Inr (True, m))
        \<longleftrightarrow> fst (validate_transaction_data pf data) = Inr (True, Ok_msg)"
      using validate_ok_msg by blast
    then show ?thesis by (simp add: prepare_features_data)
  qed
  note module = predict_fraud_frame [of pf load g data t]
  note wrapper = validate_and_predict_frame [of pf load g data t]
  have loaded: "fst (snd (snd (predict_fraud pf load (Some m) data t))) = Some m"
    using predict_fraud_frame [of pf load "Some m" data t] by simp
  have loaded': "fst (snd (snd (validate_and_predict pf load (Some m) data t))) = Some m"
    using validate_and_predict_frame [of pf load "Some m" data t] by simp
  have handler: "fst (snd (api_predict_fraud pf load (Some m) fraud_model req)) = Some m"
    by (rule api_predict_singleton)
  note objects = predict_with_details_self [of pf self data t]
    predict_probability_self [of pf self data] predict_fraud_class_self [of pf self data t]
    batch_predict_self [of pf self txs t] prepare_features_self [of pf pp data]
  show ?thesis
    unfolding details probability
    using others present "class" batch features module wrapper loaded loaded' handler objects
    by simp
qed

text \<open>
  The example transaction: the record after the call is the record with
  \<open>Time = 0\<close>; with \<open>Time\<close> already present, or with a missing field, the record is
  left as it was. The module-level \<open>predict_fraud\<close> leaves a loaded singleton as it
  was, stores the loaded model in an empty one, and leaves an empty one empty
  when the constructor raises.
\<close>

theorem prediction_frame_witness:
  "fst (snd (predict_with_details example_parser (example_model (3 / 10))
               create_sample_transaction (Finite (1 / 2))))
     = create_sample_transaction(''Time'' \<mapsto> PyInt 0)
   \<and> fst (snd (predict_with_details example_parser (example_model (3 / 10))
               (create_sample_transaction(''Time'' \<mapsto> PyInt 7)) (Finite (1 / 2))))
     = create_sample_transaction(''Time'' \<mapsto> PyInt 7)
   \<and> fst (snd (predict_with_details example_parser (example_model (3 / 10))
               (create_sample_transaction(''V1'' := None)) (Finite (1 / 2))))
     = create_sample_transaction(''V1'' := None)
   \<and> fst (snd (snd (predict_fraud example_parser failing_loader (Some (example_model (3 / 10)))
               create_sample_transaction (Finite (1 / 2)))))
     = Some (example_model (3 / 10))
   \<and> fst (snd (snd (predict_fraud example_parser (example_loader (3 / 10)) None
               create_sample_transaction (Finite (1 / 2)))))
     = Some (example_model (3 / 10))
   \<and> fst (snd (snd (predict_fraud example_parser failing_loader None
               create_sample_transaction (Finite (1 / 2)))))
     = None"
proof -
  have "fst (validate_transaction_data example_parser (create_sample_transaction(''V1'' := None)))
          \<noteq> Inr (True, Ok_msg)"
    by (simp add: validate_ok_iff required_features_def float_item_def getitem_def)
  then have records:
    "fst (snd (predict_with_details example_parser (example_model (3 / 10))
               create_sample_transaction (Finite (1 / 2))))
     = create_sample_transaction(''Time'' \<mapsto> PyInt 0)
   \<and> fst (snd (predict_with_details example_parser (example_model (3 / 10))
               (create_sample_transaction(''Time'' \<mapsto> PyInt 7)) (Finite (1 / 2))))
     = create_sample_transaction(''Time'' \<mapsto> PyInt 7)
   \<and> fst (snd (predict_with_details example_parser (example_model (3 / 10))
               (create_sample_transaction(''V1'' := None)) (Finite (1 / 2))))
     = create_sample_transaction(''V1'' := None)"
    using
      prediction_frame [of example_parser "example_model (3 / 10)" create_sample_transaction
        "Finite (1 / 2)", THEN conjunct1]
      prediction_frame [of example_parser "example_model (3 / 10)"
        "create_sample_transaction(''Time'' \<mapsto> PyInt 7)" "Finite (1 / 2)", THEN conjunct1]
      prediction_frame [of example_parser "example_model (3 / 10)"
        "create_sample_transaction(''V1'' := None)" "Finite (1 / 2)", THEN conjunct1]
    by (simp add: sample_valid sample_time example_model_def)
  have singleton:
    "fst (snd (snd (predict_fraud example_parser load g create_sample_transaction
                      (Finite (1 / 2))))) = singleton_after load g" for load g
    using prediction_frame [where pf = example_parser and load = load and g = g
            and data = create_sample_transaction and t = "Finite (1 / 2)"]
    by blast
  show ?thesis
    using records
    by (simp add: singleton failing_loader_def example_loader_def)
qed

section \<open>A malformed \<open>Time\<close>\<close>

lemma predict_probability_raised:
  assumes "model self = Some clf" and "preprocessor self = Some pp"
      and "fst (prepare_features pf pp data) = Inl e"
  shows "fst (predict_fraud_probability pf self data) = Inl e"
  using assms
  by (cases "prepare_features pf pp data")
     (auto simp: predict_fraud_probability_def split: prod.splits sum.splits)

lemma sample_numeric_upd:
  "numeric_fields (create_sample_transaction(''Amount'' \<mapsto> PyFloat (Finite a))) required_features"
  by (simp add: numeric_fields_def required_features_def create_sample_transaction_def)

text \<open>
  Claim C10, as stated: every record that has all 29 required fields with numeric
  values is valid, whatever \<open>Time\<close> is. It is not: the example transaction with
  the amount -1 has 29 numeric fields and is rejected for its negative amount.
\<close>

theorem numeric_record_rejected:
  "numeric_fields (create_sample_transaction(''Amount'' \<mapsto> PyFloat (Finite (- 1))))
     required_features
   \<and> validate_transaction_data example_parser
       (create_sample_transaction(''Amount'' \<mapsto> PyFloat (Finite (- 1))))
     = (Inr (False, Negative_amount), [])"
proof -
  have "\<forall>f\<in>set required_features. \<exists>x. float_item example_parser
          (create_sample_transaction(''Amount'' \<mapsto> PyFloat (Finite (- 1)))) f = Inr x"
    by (rule coercible_upd [OF sample_coercible]) simp
  from validate_coercible [OF this, of "Finite (- 1)"] sample_numeric_upd [of "- 1"]
  show ?thesis by (simp add: float_item_upd)
qed

text \<open>
  Claim C10, amended. Validation never reads \<open>Time\<close>: setting, changing or removing
  that key does not change what \<open>validate_transaction_data\<close> returns or logs. So a
  record whose 29 required fields all convert to floats and whose amount is not
  negative is valid whatever \<open>Time\<close> is. When a record passes validation and its
  \<open>Time\<close> is present but does not convert to a float, \<open>predict_with_details\<close>
  returns an error payload (\<open>fraud_score\<close>, \<open>is_fraud\<close> and \<open>confidence\<close> are \<open>None\<close>);
  with the model loaded, the error is the exception that the conversion of
  \<open>Time\<close> raised in \<open>prepare_features\<close>, and the payload carries its text.
\<close>

theorem validation_ignores_time:
  "validate_transaction_data pf (data(''Time'' := x)) = validate_transaction_data pf data
   \<and> ((\<forall>f\<in>set required_features. \<exists>y. float_item pf data f = Inr y)
        \<and> (\<exists>a. float_item pf data ''Amount'' = Inr a \<and> \<not> fl_less a (Finite 0))
      \<longrightarrow> fst (validate_transaction_data pf (data(''Time'' := x))) = Inr (True, Ok_msg))
   \<and> (fst (validate_transaction_data pf data) = Inr (True, Ok_msg)
        \<and> data ''Time'' = Some v \<and> py_float pf v = Inl e
      \<longrightarrow> (\<exists>msg. fst (predict_with_details pf self data t) = Error_payload msg)
          \<and> get_fraud_score (fst (predict_with_details pf self data t)) = None
          \<and> get_is_fraud (fst (predict_with_details pf self data t)) = None
          \<and> get_confidence (fst (predict_with_details pf self data t)) = None
          \<and> (\<forall>pp. preprocessor self = Some pp \<longrightarrow> fst (prepare_features pf pp data) = Inl e)
          \<and> (model self \<noteq> None \<and> preprocessor self \<noteq> None
              \<longrightarrow> fst (predict_with_details pf self data t) = Error_payload (str_exn e)))"
proof (intro conjI impI)
  show "validate_transaction_data pf (data(''Time'' := x)) = validate_transaction_data pf data"
    by (rule validate_time_irrelevant)
next
  assume "(\<forall>f\<in>set required_features. \<exists>y. float_item pf data f = Inr y)
        \<and> (\<exists>a. float_item pf data ''Amount'' = Inr a \<and> \<not> fl_less a (Finite 0))"
  then have "fst (validate_transaction_data pf data) = Inr (True, Ok_msg)"
    by (simp add: validate_ok_iff)
  then show "fst (validate_transaction_data pf (data(''Time'' := x))) = Inr (True, Ok_msg)"
    by (simp only: validate_time_irrelevant)
next
  assume h: "fst (validate_transaction_data pf data) = Inr (True, Ok_msg)
        \<and> data ''Time'' = Some v \<and> py_float pf v = Inl e"
  then have valid: "fst (validate_transaction_data pf data) = Inr (True, Ok_msg)"
    and time: "data ''Time'' = Some v" and bad: "py_float pf v = Inl e"
    by simp_all
  have fails: "fst (prepare_features pf pp data) = Inl e" for pp
    by (simp add: prepare_features_time_fails [OF valid time bad])
  have not_scored: "fst (predict_fraud_probability pf self data) \<noteq> Inr p" for p
  proof
    assume "fst (predict_fraud_probability pf self data) = Inr p"
    from predict_probability_Inr [OF this] obtain pp fs where
      "fst (prepare_features pf pp data) = Inr fs" by blast
    with fails [of pp] show False by simp
  qed
  from predict_with_details_error_or_scored [of pf self data t] not_scored
  obtain msg where msg: "fst (predict_with_details pf self data t) = Error_payload msg"
    by blast
  then show "\<exists>msg. fst (predict_with_details pf self data t) = Error_payload msg" by blast
  show "get_fraud_score (fst (predict_with_details pf self data t)) = None"
    by (simp add: msg)
  show "get_is_fraud (fst (predict_with_details pf self data t)) = None"
    by (simp add: msg)
  show "get_confidence (fst (predict_with_details pf self data t)) = None"
    by (simp add: msg)
  show "\<forall>pp. preprocessor self = Some pp \<longrightarrow> fst (prepare_features pf pp data) = Inl e"
    using fails by blast
  assume "model self \<noteq> None \<and> preprocessor self \<noteq> None"
  then obtain clf pp where l: "model self = Some clf" "preprocessor self = Some pp"
    by auto
  have "fst (predict_fraud_probability pf self data) = Inl e"
    by (rule predict_probability_raised [OF l fails])
  from predict_with_details_raised [OF l(2) valid this]
  show "fst (predict_with_details pf self data t) = Error_payload (str_exn e)"
    by (simp add: str_exn_def)
qed

text \<open>
  The example transaction with \<open>"Time": "soon"\<close>: it passes validation, and the
  prediction is the error payload with the text of the \<open>ValueError\<close> of
  \<open>float("soon")\<close>.
\<close>

theorem validation_ignores_time_witness:
  "fst (validate_transaction_data example_parser
          (create_sample_transaction(''Time'' \<mapsto> PyStr ''soon''))) = Inr (True, Ok_msg)
   \<and> fst (prepare_features example_parser \<lparr>scaler = Some Inr\<rparr>
            (create_sample_transaction(''Time'' \<mapsto> PyStr ''soon'')))
       = Inl (ValueError, Float_value_error)
   \<and> fst (predict_with_details example_parser (example_model (3 / 10))
            (create_sample_transaction(''Time'' \<mapsto> PyStr ''soon'')) (Finite (1 / 2)))
       = Error_payload Float_value_error"
proof -
  have a: "float_item example_parser create_sample_transaction ''Amount'' = Inr (Finite 149.62)
           \<and> \<not> fl_less (Finite 149.62) (Finite 0)"
    by (simp add: sample_amount)
  have v: "fst (validate_transaction_data example_parser
                  (create_sample_transaction(''Time'' \<mapsto> PyStr ''soon''))) = Inr (True, Ok_msg)"
    using validation_ignores_time [of example_parser create_sample_transaction
            "Some (PyStr ''soon'')"] sample_coercible [of example_parser] a
    by blast
  have b: "py_float example_parser (PyStr ''soon'') = Inl (ValueError, Float_value_error)"
    by (simp add: example_parser_def)
  show ?thesis
    using v b
      validation_ignores_time [of example_parser
        "create_sample_transaction(''Time'' \<mapsto> PyStr ''soon'')" _ "PyStr ''soon''"
        "(ValueError, Float_value_error)" "example_model (3 / 10)" "Finite (1 / 2)"]
    by (simp add: example_model_def str_exn_def)
qed

section \<open>Missing fields and fields that are not numbers\<close>

text \<open>
  With every required field present, the first field (in the order of
  \<open>required_features\<close>) whose conversion raises decides the result: a \<open>ValueError\<close>
  or \<open>TypeError\<close> is reported as "feature must be a number" with the name of that
  field; any other exception leaves \<open>validate_transaction_data\<close> uncaught.
\<close>

lemma first_offender_reported:
  assumes present: "\<forall>f\<in>set required_features. data f \<noteq> None"
      and split: "required_features = pre @ g # post"
      and before: "\<forall>f\<in>set pre. \<exists>x. float_item pf data f = Inr x"
      and raises: "float_item pf data g = Inl e"
  shows "validate_transaction_data pf data =
           (if fst e = ValueError \<or> fst e = TypeError
            then (Inr (False, Must_be_number g), []) else (Inl e, []))"
  using check_types_first_offender [OF before raises, of post]
  by (simp add: validate_present [OF present] split [symmetric])

lemma no_type_error_when_coercible:
  assumes "\<forall>f\<in>set required_features. \<exists>x. float_item pf data f = Inr x"
  shows "fst (validate_transaction_data pf data) = Inr (True, Ok_msg)
       \<or> fst (validate_transaction_data pf data) = Inr (False, Negative_amount)"
proof -
  obtain a where "float_item pf data ''Amount'' = Inr a"
    using assms amount_required by blast
  from validate_coercible [OF assms this] show ?thesis by simp
qed

text \<open>
  A record that lacks a required field is rejected, with nothing logged, and the
  message lists exactly the required fields it lacks, in the order of
  \<open>required_features\<close>.
\<close>

theorem missing_fields_named:
  assumes "f \<in> set required_features" and "data f = None"
  shows "validate_transaction_data pf data =
           (Inr (False, Missing_features (filter (\<lambda>g. data g = None) required_features)), [])
       \<and> f \<in> set (filter (\<lambda>g. data g = None) required_features)
       \<and> (\<forall>g. g \<in> set (filter (\<lambda>g. data g = None) required_features)
                \<longleftrightarrow> g \<in> set required_features \<and> data g = None)"
proof -
  have "validate_transaction_data pf data =
          (Inr (False, Missing_features (filter (\<lambda>g. data g = None) required_features)), [])"
    using assms by (intro validate_missing) blast
  then show ?thesis using assms by auto
qed

text \<open>The example transaction without \<open>V5\<close> and \<open>V9\<close>: both are named, in that order.\<close>

theorem missing_fields_named_witness:
  "validate_transaction_data example_parser
     (create_sample_transaction(''V5'' := None, ''V9'' := None))
     = (Inr (False, Missing_features [''V5'', ''V9'']), [])"
proof -
  let ?data = "create_sample_transaction(''V5'' := None, ''V9'' := None)"
  have f: "filter (\<lambda>g. ?data g = None) required_features = [''V5'', ''V9'']"
    by (simp add: required_features_def create_sample_transaction_def)
  have "''V5'' \<in> set required_features" by (simp add: required_features_def)
  moreover have "?data ''V5'' = None" by simp
  ultimately show ?thesis
    using missing_fields_named [of "''V5''" ?data example_parser] by (simp only: f)
qed

text \<open>
  With every required field present, the first field (in the order of
  \<open>required_features\<close>) whose conversion raises \<open>ValueError\<close> or \<open>TypeError\<close> is the
  one named in the rejection; and when every required field converts, the
  result is "OK" or the negative amount, never a missing-field or type error.
\<close>

theorem non_numeric_field_named:
  assumes "\<forall>f\<in>set required_features. data f \<noteq> None"
  shows "(required_features = pre @ g # post
          \<and> (\<forall>f\<in>set pre. \<exists>x. float_item pf data f = Inr x)
          \<and> float_item pf data g = Inl e \<and> (fst e = ValueError \<or> fst e = TypeError)
          \<longrightarrow> validate_transaction_data pf data = (Inr (False, Must_be_number g), []))
       \<and> ((\<forall>f\<in>set required_features. \<exists>x. float_item pf data f = Inr x)
          \<longrightarrow> fst (validate_transaction_data pf data) = Inr (True, Ok_msg)
              \<or> fst (validate_transaction_data pf data) = Inr (False, Negative_amount))"
proof (intro conjI impI)
  assume h: "required_features = pre @ g # post
          \<and> (\<forall>f\<in>set pre. \<exists>x. float_item pf data f = Inr x)
          \<and> float_item pf data g = Inl e \<and> (fst e = ValueError \<or> fst e = TypeError)"
  then have s: "required_features = pre @ g # post"
    and b: "\<forall>f\<in>set pre. \<exists>x. float_item pf data f = Inr x"
    and r: "float_item pf data g = Inl e"
    by simp_all
  have "validate_transaction_data pf data =
           (if fst e = ValueError \<or> fst e = TypeError
            then (Inr (False, Must_be_number g), []) else (Inl e, []))"
    by (rule first_offender_reported [OF assms s b r])
  with h show "validate_transaction_data pf data = (Inr (False, Must_be_number g), [])"
    by simp
next
  assume "\<forall>f\<in>set required_features. \<exists>x. float_item pf data f = Inr x"
  then show "fst (validate_transaction_data pf data) = Inr (True, Ok_msg)
              \<or> fst (validate_transaction_data pf data) = Inr (False, Negative_amount)"
    by (rule no_type_error_when_coercible)
qed

text \<open>
  The example transaction with \<open>"V3": null\<close> and \<open>"V7": "soon"\<close>: \<open>V3\<close>, the first of
  the two, is the one named.
\<close>

theorem non_numeric_field_named_witness:
  "validate_transaction_data example_parser
     (create_sample_transaction(''V3'' \<mapsto> PyNone, ''V7'' \<mapsto> PyStr ''soon''))
     = (Inr (False, Must_be_number ''V3''), [])"
proof -
  let ?data = "create_sample_transaction(''V3'' \<mapsto> PyNone, ''V7'' \<mapsto> PyStr ''soon'')"
  have present: "\<forall>f\<in>set required_features. ?data f \<noteq> None"
    using sample_coercible [of example_parser] float_item_present [of example_parser]
    by (metis fun_upd_apply option.distinct(1))
  have split: "required_features = [''V1'', ''V2''] @ ''V3'' # drop 3 required_features"
    by (simp add: required_features_def)
  have before: "\<forall>f\<in>set [''V1'', ''V2'']. \<exists>x. float_item example_parser ?data f = Inr x"
    by (simp add: float_item_def getitem_def create_sample_transaction_def)
  have raises: "float_item example_parser ?data ''V3'' = Inl (TypeError, Float_type_error)"
    by (simp add: float_item_def getitem_def)
  have hyp: "required_features = [''V1'', ''V2''] @ ''V3'' # drop 3 required_features
          \<and> (\<forall>f\<in>set [''V1'', ''V2'']. \<exists>x. float_item example_parser ?data f = Inr x)
          \<and> float_item example_parser ?data ''V3'' = Inl (TypeError, Float_type_error)
          \<and> (fst (TypeError, Float_type_error) = ValueError
              \<or> fst (TypeError, Float_type_error) = TypeError)"
    using split before raises by simp
  from non_numeric_field_named [OF present, THEN conjunct1, rule_format, OF hyp]
  show ?thesis .
qed

text \<open>
  Claim C6 says that a record with all required fields present and a field that
  does not convert to a float is returned as invalid, naming the field. For a
  field holding an integer too large for a float the code does not return: the
  \<open>OverflowError\<close> of \<open>float()\<close> is not among the exceptions the loop catches. The
  example transaction with \<open>V1 = 2^1024\<close> has every required field present, and
  validation raises.
\<close>

theorem validation_overflow_escapes:
  "list_all (\<lambda>f. (create_sample_transaction(''V1'' \<mapsto> PyInt (2 ^ 1024))) f \<noteq> None)
     required_features
   \<and> validate_transaction_data example_parser
       (create_sample_transaction(''V1'' \<mapsto> PyInt (2 ^ 1024)))
     = (Inl (OverflowError, Int_too_large), [])"
proof -
  let ?data = "create_sample_transaction(''V1'' \<mapsto> PyInt (2 ^ 1024))"
  have present: "\<forall>f\<in>set required_features. ?data f \<noteq> None"
    using sample_coercible [of example_parser] float_item_present [of example_parser]
    by (metis fun_upd_apply option.distinct(1))
  have raises: "float_item example_parser ?data ''V1'' = Inl (OverflowError, Int_too_large)"
    by (simp add: float_item_upd)
  have split: "required_features = [] @ ''V1'' # tl required_features"
    by (simp add: required_features_def)
  from first_offender_reported [OF present split _ raises]
  have "validate_transaction_data example_parser ?data = (Inl (OverflowError, Int_too_large), [])"
    by simp
  moreover have "list_all (\<lambda>f. ?data f \<noteq> None) required_features"
    using present by (simp add: list_all_iff)
  ultimately show ?thesis by simp
qed

section \<open>Batches\<close>

lemma batch_loop_fst_Cons:
  "fst (batch_loop pf self t i (tx # txs)) =
     (i, fst (predict_with_details pf self tx t)) # fst (batch_loop pf self t (Suc i) txs)"
  by (simp add: batch_loop_Cons del: batch_loop.simps(2))

lemma batch_loop_length: "length (fst (batch_loop pf self t i txs)) = length txs"
  by (induction txs arbitrary: i) (simp_all add: batch_loop_fst_Cons del: batch_loop.simps(2))

lemma batch_loop_nth:
  "j < length txs \<Longrightarrow>
     fst (batch_loop pf self t i txs) ! j = (i + j, fst (predict_with_details pf self (txs ! j) t))"
proof (induction txs arbitrary: i j)
  case Nil
  then show ?case by simp
next
  case (Cons tx txs)
  show ?case
  proof (cases j)
    case 0
    then show ?thesis by (simp add: batch_loop_fst_Cons del: batch_loop.simps(2))
  next
    case (Suc k)
    then have "k < length txs" using Cons.prems by simp
    from Cons.IH [OF this, of "Suc i"] Suc show ?thesis
      by (simp add: batch_loop_fst_Cons del: batch_loop.simps(2))
  qed
qed

lemma batch_predict_results:
  "length (fst (batch_predict pf self txs t)) = length txs
   \<and> (\<forall>i<length txs.
         fst (batch_predict pf self txs t) ! i = (i, fst (predict_with_details pf self (txs ! i) t)))"
  by (simp add: batch_predict_def batch_loop_length batch_loop_nth)

lemma batch_threshold_ok:
  assumes "py_float pf (case batch_threshold req of None \<Rightarrow> PyFloat (Finite 0.5) | Some v \<Rightarrow> v)
             = Inr t"
      and "fl_le (Finite 0) t" and "fl_le t (Finite 1)"
      and "batch_is_json req" and "transactions req = Some txs"
  shows "predict_batch pf (Some m) req =
           (if length txs > 100 then ((Error_response Max_batch_size, 400), [])
            else ((Batch_response (fst (batch_predict pf m txs t)) (length txs) t, 200),
                  snd (snd (snd (batch_predict pf m txs t))) @ [(INFO, Api_batch_done (length txs))]))"
  using assms
  by (cases "batch_predict pf m txs t") (simp add: predict_batch_def Let_def)

lemma batch_too_large_rejected:
  assumes "transactions req = Some txs" and "100 < length txs"
  shows "\<exists>msg code. fst (predict_batch pf fraud_model req) = (Error_response msg, code) \<and> code \<noteq> 200"
  using assms
  by (auto simp: predict_batch_def Let_def split: option.splits sum.splits)

lemma scored_when_artifacts_work:
  assumes "model self = Some clf" and "preprocessor self = Some pp" and "scaler pp = Some sc"
      and "\<forall>xs. \<exists>ys. sc xs = Inr ys" and "\<forall>ys. \<exists>p. clf ys = Inr p"
      and "fst (validate_transaction_data pf data) = Inr (True, Ok_msg)"
      and "data ''Time'' = None \<or> (\<exists>v x. data ''Time'' = Some v \<and> py_float pf v = Inr x)"
  shows "\<exists>p. fst (predict_fraud_probability pf self data) = Inr p"
proof -
  from prepare_features_assembled [OF assms(6,7), of pp] assms(3)
  obtain features where "fst (prepare_features pf pp data) = sc features"
    by auto
  moreover obtain ys where "sc features = Inr ys"
    using assms(4) by blast
  ultimately have "fst (prepare_features pf pp data) = Inr ys"
    by simp
  from predict_probability_assembled [OF assms(1,2) this] assms(5)
  show ?thesis by simp
qed

lemma malformed_time_not_scored:
  assumes valid: "fst (validate_transaction_data pf data) = Inr (True, Ok_msg)"
      and time: "data ''Time'' = Some v" and bad: "py_float pf v = Inl e"
  shows "\<exists>msg. fst (predict_with_details pf self data t) = Error_payload msg"
proof -
  have fails: "fst (prepare_features pf pp data) = Inl e" for pp
    by (simp add: prepare_features_time_fails [OF valid time bad])
  have "fst (predict_fraud_probability pf self data) \<noteq> Inr p" for p
  proof
    assume "fst (predict_fraud_probability pf self data) = Inr p"
    from predict_probability_Inr [OF this] obtain pp fs where
      "fst (prepare_features pf pp data) = Inr fs" by blast
    with fails [of pp] show False by simp
  qed
  with predict_with_details_error_or_scored [of pf self data t]
  show ?thesis by blast
qed

lemma sample_null_time_valid:
  "fst (validate_transaction_data example_parser (create_sample_transaction(''Time'' \<mapsto> PyNone)))
     = Inr (True, Ok_msg)"
  using sample_valid [of example_parser]
        validate_time_irrelevant [of example_parser create_sample_transaction "Some PyNone"]
  by simp

text \<open>
  Claim C3, as stated: in a batch of at most 100 records every valid item gets a
  score. It does not: the example transaction with \<open>"Time": null\<close> added passes
  validation, and as the only item of a batch, with the example model loaded, it
  gets the error payload with the text of the \<open>TypeError\<close> of \<open>float(None)\<close>, which
  \<open>prepare_features\<close> raises when it converts \<open>Time\<close>.
\<close>

theorem batch_valid_item_not_scored:
  "fst (validate_transaction_data example_parser
          (create_sample_transaction(''Time'' \<mapsto> PyNone))) = Inr (True, Ok_msg)
   \<and> fst (predict_batch example_parser (Some (example_model (3 / 10)))
            \<lparr>batch_is_json = True,
             transactions = Some [create_sample_transaction(''Time'' \<mapsto> PyNone)],
             batch_threshold = None\<rparr>)
       = (Batch_response [(0, Error_payload Float_type_error)] 1 (Finite (1 / 2)), 200)"
proof -
  let ?data = "create_sample_transaction(''Time'' \<mapsto> PyNone)"
  let ?m = "example_model (3 / 10)"
  have fails: "fst (prepare_features example_parser \<lparr>scaler = Some Inr\<rparr> ?data)
                 = Inl (TypeError, Float_type_error)"
    using prepare_features_time_fails [OF sample_null_time_valid, of PyNone
            "(TypeError, Float_type_error)" "\<lparr>scaler = Some Inr\<rparr>"]
    by simp
  have "fst (predict_fraud_probability example_parser ?m ?data)
          = Inl (TypeError, Float_type_error)"
    by (rule predict_probability_raised [OF _ _ fails]) (simp_all add: example_model_def)
  from predict_with_details_raised [OF _ sample_null_time_valid this, of "\<lparr>scaler = Some Inr\<rparr>"
         "Finite (1 / 2)"]
  have item: "fst (predict_with_details example_parser ?m ?data (Finite (1 / 2)))
                = Error_payload Float_type_error"
    by (simp add: example_model_def str_exn_def)
  have "fst (batch_predict example_parser ?m [?data] (Finite (1 / 2)))
          = [(0, Error_payload Float_type_error)]"
    by (simp add: batch_predict_def batch_loop_fst_Cons item del: batch_loop.simps(2))
  then show ?thesis
    using sample_null_time_valid
    by (simp add: batch_threshold_ok)
qed

lemma invalid_item_not_scored:
  assumes "fst (validate_transaction_data pf data) \<noteq> Inr (True, Ok_msg)"
  shows "\<exists>msg. fst (predict_with_details pf self data t) = Error_payload msg"
proof -
  have "fst (predict_fraud_probability pf self data) \<noteq> Inr p" for p
  proof
    assume "fst (predict_fraud_probability pf self data) = Inr p"
    from predict_probability_Inr [OF this] obtain pp fs where
      "fst (prepare_features pf pp data) = Inr fs" by blast
    from prepare_features_Inr_valid [OF this] assms show False by simp
  qed
  with predict_with_details_error_or_scored [of pf self data t]
  show ?thesis by blast
qed

lemma valid_item_outcome:
  assumes l: "model self = Some clf" "preprocessor self = Some pp" and sc: "scaler pp = Some sc"
      and valid: "fst (validate_transaction_data pf data) = Inr (True, Ok_msg)"
      and time: "data ''Time'' = None \<or> (\<exists>v x. data ''Time'' = Some v \<and> py_float pf v = Inr x)"
  shows "\<exists>features.
           map Inr features =
             (case data ''Time'' of None \<Rightarrow> Inr (Finite 0) | Some v \<Rightarrow> py_float pf v)
             # map (float_item pf data) required_features
           \<and> (\<forall>e. sc features = Inl e
                 \<longrightarrow> fst (predict_with_details pf self data t) = Error_payload (str_exn e))
           \<and> (\<forall>ys e. sc features = Inr ys \<and> clf ys = Inl e
                 \<longrightarrow> fst (predict_with_details pf self data t) = Error_payload (str_exn e))
           \<and> (\<forall>ys p. sc features = Inr ys \<and> clf ys = Inr p
                 \<longrightarrow> get_fraud_score (fst (predict_with_details pf self data t))
                       = Some (py_round p 4)
                     \<and> get_error (fst (predict_with_details pf self data t)) = None)"
proof -
  from prepare_features_assembled [OF valid time, of pp] sc
  obtain features where
    pf: "fst (prepare_features pf pp data) = sc features"
    and fs: "map Inr features =
             (case data ''Time'' of None \<Rightarrow> Inr (Finite 0) | Some v \<Rightarrow> py_float pf v)
             # map (float_item pf data) required_features"
    by auto
  have a: "fst (predict_with_details pf self data t) = Error_payload (str_exn e)"
    if "sc features = Inl e" for e
  proof -
    have "fst (prepare_features pf pp data) = Inl e" using pf that by simp
    from predict_probability_raised [OF l this]
    have "fst (predict_fraud_probability pf self data) = Inl e" .
    from predict_with_details_raised [OF l(2) valid this] show ?thesis
      by (simp add: str_exn_def)
  qed
  have prob: "fst (predict_fraud_probability pf self data) = clf ys"
    if "sc features = Inr ys" for ys
  proof -
    have "fst (prepare_features pf pp data) = Inr ys" using pf that by simp
    from predict_probability_assembled [OF l this] show ?thesis .
  qed
  have b: "fst (predict_with_details pf self data t) = Error_payload (str_exn e)"
    if "sc features = Inr ys \<and> clf ys = Inl e" for ys e
  proof -
    have "fst (predict_fraud_probability pf self data) = Inl e"
      using prob [of ys] that by simp
    from predict_with_details_raised [OF l(2) valid this] show ?thesis
      by (simp add: str_exn_def)
  qed
  have c: "get_fraud_score (fst (predict_with_details pf self data t)) = Some (py_round p 4)
           \<and> get_error (fst (predict_with_details pf self data t)) = None"
    if "sc features = Inr ys \<and> clf ys = Inr p" for ys p
  proof -
    have "fst (predict_fraud_probability pf self data) = Inr p"
      using prob [of ys] that by simp
    then show ?thesis by (simp add: predict_with_details_scored)
  qed
  show ?thesis
  proof (intro exI [of _ features] conjI allI impI)
    show "map Inr features =
             (case data ''Time'' of None \<Rightarrow> Inr (Finite 0) | Some v \<Rightarrow> py_float pf v)
             # map (float_item pf data) required_features"
      by (rule fs)
  next
    fix e assume "sc features = Inl e"
    then show "fst (predict_with_details pf self data t) = Error_payload (str_exn e)"
      by (rule a)
  next
    fix ys e assume "sc features = Inr ys \<and> clf ys = Inl e"
    then show "fst (predict_with_details pf self data t) = Error_payload (str_exn e)"
      by (rule b)
  next
    fix ys p assume h: "sc features = Inr ys \<and> clf ys = Inr p"
    show "get_fraud_score (fst (predict_with_details pf self data t)) = Some (py_round p 4)"
      using c [OF h] by simp
    show "get_error (fst (predict_with_details pf self data t)) = None"
      using c [OF h] by simp
  qed
qed

text \<open>
  Claim C3, amended. A batch request that carries more than 100 transactions is
  answered with an error and no results, whatever else is in it; with the model
  loaded, a JSON body and a valid threshold the answer is the "maximum 100" error
  with status 400 and nothing is logged, so no transaction was looked at. A batch
  of at most 100 records, sent as JSON with a valid threshold to a loaded model,
  is answered with status 200 and one result per record, in the order of the
  input: the result at position \<open>i\<close> is tagged \<open>i\<close> and is what
  \<open>predict_with_details\<close> returns for the record at position \<open>i\<close> alone, so a failing
  record changes nothing for the others. That result is
  \<^item> an error payload when the record fails validation (the payload with the
    validation message when the preprocessor is loaded);
  \<^item> an error payload when the record passes validation and its \<open>Time\<close> is present
    but does not convert to a float;
  \<^item> when the record passes validation, its \<open>Time\<close> is absent or converts to a
    float, and model, preprocessor and scaler are loaded: the payload with the
    rounded score of the 30 assembled features when the scaler and the classifier
    return, and the error payload with the text of the exception when one of
    them raises. So such a record gets a score whenever the loaded scaler and
    classifier do not raise.

  In every case the result is an error payload or carries the rounded score of
  \<open>predict_fraud_probability\<close>.
\<close>

theorem batch_contract:
  assumes "transactions req = Some txs"
  shows "(100 < length txs \<longrightarrow>
            (\<exists>msg code. fst (predict_batch pf fraud_model req) = (Error_response msg, code)
                \<and> code \<noteq> 200)
          \<and> (batch_is_json req
              \<and> py_float pf (case batch_threshold req of
                                None \<Rightarrow> PyFloat (Finite 0.5) | Some v \<Rightarrow> v) = Inr t
              \<and> fl_le (Finite 0) t \<and> fl_le t (Finite 1)
              \<longrightarrow> predict_batch pf (Some m) req = ((Error_response Max_batch_size, 400), [])))
       \<and> (length txs \<le> 100 \<and> batch_is_json req
           \<and> py_float pf (case batch_threshold req of
                             None \<Rightarrow> PyFloat (Finite 0.5) | Some v \<Rightarrow> v) = Inr t
           \<and> fl_le (Finite 0) t \<and> fl_le t (Finite 1)
           \<longrightarrow> (\<exists>results.
                   fst (predict_batch pf (Some m) req) = (Batch_response results (length txs) t, 200)
                   \<and> length results = length txs
                   \<and> (\<forall>i<length txs.
                         results ! i = (i, fst (predict_with_details pf m (txs ! i) t))
                         \<and> (\<forall>msg. preprocessor m \<noteq> None
                                 \<and> fst (validate_transaction_data pf (txs ! i)) = Inr (False, msg)
                               \<longrightarrow> results ! i = (i, Error_payload msg))
                         \<and> (\<forall>p. fst (predict_fraud_probability pf m (txs ! i)) = Inr p
                               \<longrightarrow> get_fraud_score (snd (results ! i)) = Some (py_round p 4)
                                   \<and> get_error (snd (results ! i)) = None)
                         \<and> ((\<exists>msg. snd (results ! i) = Error_payload msg)
                             \<or> (\<exists>p. fst (predict_fraud_probability pf m (txs ! i)) = Inr p))
                         \<and> (fst (validate_transaction_data pf (txs ! i)) \<noteq> Inr (True, Ok_msg)
                               \<longrightarrow> (\<exists>msg. results ! i = (i, Error_payload msg)))
                         \<and> (\<forall>v e. fst (validate_transaction_data pf (txs ! i)) = Inr (True, Ok_msg)
                                 \<and> (txs ! i) ''Time'' = Some v \<and> py_float pf v = Inl e
                               \<longrightarrow> (\<exists>msg. results ! i = (i, Error_payload msg)))
                         \<and> (\<forall>clf pp sc.
                               model m = Some clf \<and> preprocessor m = Some pp \<and> scaler pp = Some sc
                               \<and> fst (validate_transaction_data pf (txs ! i)) = Inr (True, Ok_msg)
                               \<and> ((txs ! i) ''Time'' = None
                                    \<or> (\<exists>v x. (txs ! i) ''Time'' = Some v \<and> py_float pf v = Inr x))
                               \<longrightarrow> (\<exists>features.
                                     map Inr features =
                                       (case (txs ! i) ''Time'' of None \<Rightarrow> Inr (Finite 0) | Some v \<Rightarrow> py_float pf v)
                                       # map (float_item pf (txs ! i)) required_features
                                     \<and> (\<forall>e. sc features = Inl e \<longrightarrow> results ! i = (i, Error_payload (str_exn e)))
                                     \<and> (\<forall>ys e. sc features = Inr ys \<and> clf ys = Inl e
                                           \<longrightarrow> results ! i = (i, Error_payload (str_exn e)))
                                     \<and> (\<forall>ys p. sc features = Inr ys \<and> clf ys = Inr p
                                           \<longrightarrow> get_fraud_score (snd (results ! i)) = Some (py_round p 4)
                                               \<and> get_error (snd (results ! i)) = None)))
                         \<and> (\<forall>clf pp sc.
                               model m = Some clf \<and> preprocessor m = Some pp \<and> scaler pp = Some sc
                               \<and> (\<forall>xs. \<exists>ys. sc xs = Inr ys) \<and> (\<forall>ys. \<exists>p. clf ys = Inr p)
                               \<and> fst (validate_transaction_data pf (txs ! i)) = Inr (True, Ok_msg)
                               \<and> ((txs ! i) ''Time'' = None
                                    \<or> (\<exists>v x. (txs ! i) ''Time'' = Some v \<and> py_float pf v = Inr x))
                               \<longrightarrow> (\<exists>p. get_fraud_score (snd (results ! i)) = Some (py_round p 4))))))"
proof (intro conjI impI)
  assume "100 < length txs"
  then show "\<exists>msg code. fst (predict_batch pf fraud_model req) = (Error_response msg, code)
                \<and> code \<noteq> 200"
    using assms by (intro batch_too_large_rejected)
next
  assume "100 < length txs"
    and "batch_is_json req
         \<and> py_float pf (case batch_threshold req of
                           None \<Rightarrow> PyFloat (Finite 0.5) | Some v \<Rightarrow> v) = Inr t
         \<and> fl_le (Finite 0) t \<and> fl_le t (Finite 1)"
  then show "predict_batch pf (Some m) req = ((Error_response Max_batch_size, 400), [])"
    using assms by (simp add: batch_threshold_ok)
next
  assume h: "length txs \<le> 100 \<and> batch_is_json req
           \<and> py_float pf (case batch_threshold req of
                             None \<Rightarrow> PyFloat (Finite 0.5) | Some v \<Rightarrow> v) = Inr t
           \<and> fl_le (Finite 0) t \<and> fl_le t (Finite 1)"
  define results where "results = fst (batch_predict pf m txs t)"
  have resp: "fst (predict_batch pf (Some m) req) = (Batch_response results (length txs) t, 200)"
    using h assms by (simp add: batch_threshold_ok results_def)
  have len: "length results = length txs"
    by (simp add: results_def batch_predict_results)
  have item: "results ! i = (i, fst (predict_with_details pf m (txs ! i) t))"
    if "i < length txs" for i
    using that by (simp add: results_def batch_predict_results)
  have facts:
       "results ! i = (i, fst (predict_with_details pf m (txs ! i) t))
        \<and> (\<forall>msg. preprocessor m \<noteq> None
                \<and> fst (validate_transaction_data pf (txs ! i)) = Inr (False, msg)
              \<longrightarrow> results ! i = (i, Error_payload msg))
        \<and> (\<forall>p. fst (predict_fraud_probability pf m (txs ! i)) = Inr p
              \<longrightarrow> get_fraud_score (snd (results ! i)) = Some (py_round p 4)
                  \<and> get_error (snd (results ! i)) = None)
        \<and> ((\<exists>msg. snd (results ! i) = Error_payload msg)
            \<or> (\<exists>p. fst (predict_fraud_probability pf m (txs ! i)) = Inr p))
        \<and> (fst (validate_transaction_data pf (txs ! i)) \<noteq> Inr (True, Ok_msg)
              \<longrightarrow> (\<exists>msg. results ! i = (i, Error_payload msg)))
        \<and> (\<forall>v e. fst (validate_transaction_data pf (txs ! i)) = Inr (True, Ok_msg)
                \<and> (txs ! i) ''Time'' = Some v \<and> py_float pf v = Inl e
              \<longrightarrow> (\<exists>msg. results ! i = (i, Error_payload msg)))
        \<and> (\<forall>clf pp sc.
              model m = Some clf \<and> preprocessor m = Some pp \<and> scaler pp = Some sc
              \<and> fst (validate_transaction_data pf (txs ! i)) = Inr (True, Ok_msg)
              \<and> ((txs ! i) ''Time'' = None
                   \<or> (\<exists>v x. (txs ! i) ''Time'' = Some v \<and> py_float pf v = Inr x))
              \<longrightarrow> (\<exists>features.
                    map Inr features =
                      (case (txs ! i) ''Time'' of None \<Rightarrow> Inr (Finite 0) | Some v \<Rightarrow> py_float pf v)
                      # map (float_item pf (txs ! i)) required_features
                    \<and> (\<forall>e. sc features = Inl e \<longrightarrow> results ! i = (i, Error_payload (str_exn e)))
                    \<and> (\<forall>ys e. sc features = Inr ys \<and> clf ys = Inl e
                          \<longrightarrow> results ! i = (i, Error_payload (str_exn e)))
                    \<and> (\<forall>ys p. sc features = Inr ys \<and> clf ys = Inr p
                          \<longrightarrow> get_fraud_score (snd (results ! i)) = Some (py_round p 4)
                              \<and> get_error (snd (results ! i)) = None)))
        \<and> (\<forall>clf pp sc.
              model m = Some clf \<and> preprocessor m = Some pp \<and> scaler pp = Some sc
              \<and> (\<forall>xs. \<exists>ys. sc xs = Inr ys) \<and> (\<forall>ys. \<exists>p. clf ys = Inr p)
              \<and> fst (validate_transaction_data pf (txs ! i)) = Inr (True, Ok_msg)
              \<and> ((txs ! i) ''Time'' = None
                   \<or> (\<exists>v x. (txs ! i) ''Time'' = Some v \<and> py_float pf v = Inr x))
              \<longrightarrow> (\<exists>p. get_fraud_score (snd (results ! i)) = Some (py_round p 4)))"
    if i: "i < length txs" for i
  proof (intro conjI allI impI)
    show "results ! i = (i, fst (predict_with_details pf m (txs ! i) t))"
      by (rule item [OF i])
  next
    fix msg
    assume "preprocessor m \<noteq> None
            \<and> fst (validate_transaction_data pf (txs ! i)) = Inr (False, msg)"
    then obtain pp where "preprocessor m = Some pp"
      and "fst (validate_transaction_data pf (txs ! i)) = Inr (False, msg)"
      by auto
    from predict_with_details_invalid [OF this, of t]
    show "results ! i = (i, Error_payload msg)"
      by (simp add: item [OF i])
  next
    fix p
    assume s: "fst (predict_fraud_probability pf m (txs ! i)) = Inr p"
    show "get_fraud_score (snd (results ! i)) = Some (py_round p 4)"
      by (simp add: item [OF i] predict_with_details_scored [OF s])
    show "get_error (snd (results ! i)) = None"
      by (simp add: item [OF i] predict_with_details_scored [OF s])
  next
    show "(\<exists>msg. snd (results ! i) = Error_payload msg)
          \<or> (\<exists>p. fst (predict_fraud_probability pf m (txs ! i)) = Inr p)"
      using predict_with_details_error_or_scored [of pf m "txs ! i" t]
      by (simp add: item [OF i])
  next
    assume "fst (validate_transaction_data pf (txs ! i)) \<noteq> Inr (True, Ok_msg)"
    from invalid_item_not_scored [OF this, of m t]
    show "\<exists>msg. results ! i = (i, Error_payload msg)"
      by (simp add: item [OF i])
  next
    fix v e
    assume "fst (validate_transaction_data pf (txs ! i)) = Inr (True, Ok_msg)
            \<and> (txs ! i) ''Time'' = Some v \<and> py_float pf v = Inl e"
    then have "fst (validate_transaction_data pf (txs ! i)) = Inr (True, Ok_msg)"
      and "(txs ! i) ''Time'' = Some v" and "py_float pf v = Inl e"
      by simp_all
    from malformed_time_not_scored [OF this, of m t]
    show "\<exists>msg. results ! i = (i, Error_payload msg)"
      by (simp add: item [OF i])
  next
    fix clf pp sc
    assume "model m = Some clf \<and> preprocessor m = Some pp \<and> scaler pp = Some sc
      \<and> fst (validate_transaction_data pf (txs ! i)) = Inr (True, Ok_msg)
      \<and> ((txs ! i) ''Time'' = None
           \<or> (\<exists>v x. (txs ! i) ''Time'' = Some v \<and> py_float pf v = Inr x))"
    then have "model m = Some clf" and "preprocessor m = Some pp" and "scaler pp = Some sc"
      and "fst (validate_transaction_data pf (txs ! i)) = Inr (True, Ok_msg)"
      and "(txs ! i) ''Time'' = None
           \<or> (\<exists>v x. (txs ! i) ''Time'' = Some v \<and> py_float pf v = Inr x)"
      by simp_all
    from valid_item_outcome [OF this, of t]
    show "\<exists>features.
            map Inr features =
              (case (txs ! i) ''Time'' of None \<Rightarrow> Inr (Finite 0) | Some v \<Rightarrow> py_float pf v)
              # map (float_item pf (txs ! i)) required_features
            \<and> (\<forall>e. sc features = Inl e \<longrightarrow> results ! i = (i, Error_payload (str_exn e)))
            \<and> (\<forall>ys e. sc features = Inr ys \<and> clf ys = Inl e
                  \<longrightarrow> results ! i = (i, Error_payload (str_exn e)))
            \<and> (\<forall>ys p. sc features = Inr ys \<and> clf ys = Inr p
                  \<longrightarrow> get_fraud_score (snd (results ! i)) = Some (py_round p 4)
                      \<and> get_error (snd (results ! i)) = None)"
      by (simp add: item [OF i])
  next
    fix clf pp sc
    assume "model m = Some clf \<and> preprocessor m = Some pp \<and> scaler pp = Some sc
              \<and> (\<forall>xs. \<exists>ys. sc xs = Inr ys) \<and> (\<forall>ys. \<exists>p. clf ys = Inr p)
              \<and> fst (validate_transaction_data pf (txs ! i)) = Inr (True, Ok_msg)
              \<and> ((txs ! i) ''Time'' = None
                   \<or> (\<exists>v x. (txs ! i) ''Time'' = Some v \<and> py_float pf v = Inr x))"
    then obtain p where s: "fst (predict_fraud_probability pf m (txs ! i)) = Inr p"
      using scored_when_artifacts_work [of m clf pp sc pf "txs ! i"] by blast
    show "\<exists>p. get_fraud_score (snd (results ! i)) = Some (py_round p 4)"
      by (rule exI [of _ p]) (simp add: item [OF i] predict_with_details_scored [OF s])
  qed
  with resp len
  show "\<exists>results.
          fst (predict_batch pf (Some m) req) = (Batch_response results (length txs) t, 200)
          \<and> length results = length txs
          \<and> (\<forall>i<length txs.
                results ! i = (i, fst (predict_with_details pf m (txs ! i) t))
                \<and> (\<forall>msg. preprocessor m \<noteq> None
                        \<and> fst (validate_transaction_data pf (txs ! i)) = Inr (False, msg)
                      \<longrightarrow> results ! i = (i, Error_payload msg))
                \<and> (\<forall>p. fst (predict_fraud_probability pf m (txs ! i)) = Inr p
                      \<longrightarrow> get_fraud_score (snd (results ! i)) = Some (py_round p 4)
                          \<and> get_error (snd (results ! i)) = None)
                \<and> ((\<exists>msg. snd (results ! i) = Error_payload msg)
                    \<or> (\<exists>p. fst (predict_fraud_probability pf m (txs ! i)) = Inr p))
                \<and> (fst (validate_transaction_data pf (txs ! i)) \<noteq> Inr (True, Ok_msg)
                      \<longrightarrow> (\<exists>msg. results ! i = (i, Error_payload msg)))
                \<and> (\<forall>v e. fst (validate_transaction_data pf (txs ! i)) = Inr (True, Ok_msg)
                        \<and> (txs ! i) ''Time'' = Some v \<and> py_float pf v = Inl e
                      \<longrightarrow> (\<exists>msg. results ! i = (i, Error_payload msg)))
                \<and> (\<forall>clf pp sc.
                      model m = Some clf \<and> preprocessor m = Some pp \<and> scaler pp = Some sc
                      \<and> fst (validate_transaction_data pf (txs ! i)) = Inr (True, Ok_msg)
                      \<and> ((txs ! i) ''Time'' = None
                           \<or> (\<exists>v x. (txs ! i) ''Time'' = Some v \<and> py_float pf v = Inr x))
                      \<longrightarrow> (\<exists>features.
                            map Inr features =
                              (case (txs ! i) ''Time'' of None \<Rightarrow> Inr (Finite 0) | Some v \<Rightarrow> py_float pf v)
                              # map (float_item pf (txs ! i)) required_features
                            \<and> (\<forall>e. sc features = Inl e \<longrightarrow> results ! i = (i, Error_payload (str_exn e)))
                            \<and> (\<forall>ys e. sc features = Inr ys \<and> clf ys = Inl e
                                  \<longrightarrow> results ! i = (i, Error_payload (str_exn e)))
                            \<and> (\<forall>ys p. sc features = Inr ys \<and> clf ys = Inr p
                                  \<longrightarrow> get_fraud_score (snd (results ! i)) = Some (py_round p 4)
                                      \<and> get_error (snd (results ! i)) = None)))
                \<and> (\<forall>clf pp sc.
                      model m = Some clf \<and> preprocessor m = Some pp \<and> scaler pp = Some sc
                      \<and> (\<forall>xs. \<exists>ys. sc xs = Inr ys) \<and> (\<forall>ys. \<exists>p. clf ys = Inr p)
                      \<and> fst (validate_transaction_data pf (txs ! i)) = Inr (True, Ok_msg)
                      \<and> ((txs ! i) ''Time'' = None
                           \<or> (\<exists>v x. (txs ! i) ''Time'' = Some v \<and> py_float pf v = Inr x))
                      \<longrightarrow> (\<exists>p. get_fraud_score (snd (results ! i)) = Some (py_round p 4))))"
    by (intro exI [of _ results]) blast
qed

text \<open>
  A batch of 101 copies of the example transaction is rejected. A batch of three,
  the second lacking \<open>V1\<close>, with the threshold given as the string \<open>"0.5"\<close>, has three
  results in order: a score, the error naming \<open>V1\<close>, a score.
\<close>

theorem batch_contract_witness:
  "predict_batch example_parser (Some (example_model (3 / 10)))
     \<lparr>batch_is_json = True,
      transactions = Some (replicate 101 create_sample_transaction),
      batch_threshold = None\<rparr>
     = ((Error_response Max_batch_size, 400), [])
   \<and> (\<exists>results.
        fst (predict_batch example_parser (Some (example_model (3 / 10)))
               \<lparr>batch_is_json = True,
                transactions = Some [create_sample_transaction,
                                     create_sample_transaction(''V1'' := None),
                                     create_sample_transaction],
                batch_threshold = Some (PyStr ''0.5'')\<rparr>)
          = (Batch_response results 3 (Finite (1 / 2)), 200)
        \<and> length results = 3
        \<and> fst (results ! 0) = 0 \<and> get_fraud_score (snd (results ! 0)) = Some (3 / 10)
        \<and> results ! 1 = (1, Error_payload (Missing_features [''V1'']))
        \<and> fst (results ! 2) = 2 \<and> get_fraud_score (snd (results ! 2)) = Some (3 / 10))"
proof -
  let ?m = "example_model (3 / 10)"
  let ?big = "\<lparr>batch_is_json = True,
               transactions = Some (replicate 101 create_sample_transaction),
               batch_threshold = None\<rparr>"
  let ?txs = "[create_sample_transaction, create_sample_transaction(''V1'' := None),
               create_sample_transaction]"
  let ?req = "\<lparr>batch_is_json = True, transactions = Some ?txs,
               batch_threshold = Some (PyStr ''0.5'')\<rparr>"
  have big: "predict_batch example_parser (Some ?m) ?big = ((Error_response Max_batch_size, 400), [])"
    using batch_contract [of ?big "replicate 101 create_sample_transaction" example_parser
            "Some ?m" "Finite (1 / 2)" ?m]
    by simp
  have thr: "py_float example_parser (PyStr ''0.5'') = Inr (Finite (1 / 2))"
    by (simp add: example_parser_def)
  have missing: "fst (validate_transaction_data example_parser
                        (create_sample_transaction(''V1'' := None)))
                   = Inr (False, Missing_features [''V1''])"
    by (simp add: validate_transaction_data_def required_features_def
          create_sample_transaction_def)
  have r4: "py_round (3 / 10) 4 = 3 / 10"
    by (simp add: py_round_def)
  have pp: "preprocessor ?m \<noteq> None"
    by (simp add: example_model_def)
  have tx: "transactions ?req = Some ?txs" by simp
  have hyp: "length ?txs \<le> 100 \<and> batch_is_json ?req
           \<and> py_float example_parser (case batch_threshold ?req of
                 None \<Rightarrow> PyFloat (Finite 0.5) | Some v \<Rightarrow> v) = Inr (Finite (1 / 2))
           \<and> fl_le (Finite 0) (Finite (1 / 2)) \<and> fl_le (Finite (1 / 2)) (Finite 1)"
    by (simp add: thr del: py_float.simps)
  from batch_contract [OF tx, where pf = example_parser and t = "Finite (1 / 2)" and m = ?m,
         THEN conjunct2, rule_format, OF hyp]
  obtain results where
    resp': "fst (predict_batch example_parser (Some ?m) ?req)
             = (Batch_response results (length ?txs) (Finite (1 / 2)), 200)"
    and len': "length results = length ?txs"
    and items: "\<forall>i<length ?txs.
        results ! i = (i, fst (predict_with_details example_parser ?m (?txs ! i) (Finite (1 / 2))))
        \<and> (\<forall>msg. preprocessor ?m \<noteq> None
                \<and> fst (validate_transaction_data example_parser (?txs ! i)) = Inr (False, msg)
              \<longrightarrow> results ! i = (i, Error_payload msg))
        \<and> (\<forall>p. fst (predict_fraud_probability example_parser ?m (?txs ! i)) = Inr p
              \<longrightarrow> get_fraud_score (snd (results ! i)) = Some (py_round p 4)
                  \<and> get_error (snd (results ! i)) = None)
        \<and> ((\<exists>msg. snd (results ! i) = Error_payload msg)
            \<or> (\<exists>p. fst (predict_fraud_probability example_parser ?m (?txs ! i)) = Inr p))
        \<and> (fst (validate_transaction_data example_parser (?txs ! i)) \<noteq> Inr (True, Ok_msg)
              \<longrightarrow> (\<exists>msg. results ! i = (i, Error_payload msg)))
        \<and> (\<forall>v e. fst (validate_transaction_data example_parser (?txs ! i)) = Inr (True, Ok_msg)
                \<and> (?txs ! i) ''Time'' = Some v \<and> py_float example_parser v = Inl e
              \<longrightarrow> (\<exists>msg. results ! i = (i, Error_payload msg)))
        \<and> (\<forall>clf pp sc.
              model ?m = Some clf \<and> preprocessor ?m = Some pp \<and> scaler pp = Some sc
              \<and> fst (validate_transaction_data example_parser (?txs ! i)) = Inr (True, Ok_msg)
              \<and> ((?txs ! i) ''Time'' = None
                   \<or> (\<exists>v x. (?txs ! i) ''Time'' = Some v \<and> py_float example_parser v = Inr x))
              \<longrightarrow> (\<exists>features.
                    map Inr features =
                      (case (?txs ! i) ''Time'' of None \<Rightarrow> Inr (Finite 0) | Some v \<Rightarrow> py_float example_parser v)
                      # map (float_item example_parser (?txs ! i)) required_features
                    \<and> (\<forall>e. sc features = Inl e \<longrightarrow> results ! i = (i, Error_payload (str_exn e)))
                    \<and> (\<forall>ys e. sc features = Inr ys \<and> clf ys = Inl e
                          \<longrightarrow> results ! i = (i, Error_payload (str_exn e)))
                    \<and> (\<forall>ys p. sc features = Inr ys \<and> clf ys = Inr p
                          \<longrightarrow> get_fraud_score (snd (results ! i)) = Some (py_round p 4)
                              \<and> get_error (snd (results ! i)) = None)))
        \<and> (\<forall>clf pp sc.
              model ?m = Some clf \<and> preprocessor ?m = Some pp \<and> scaler pp = Some sc
              \<and> (\<forall>xs. \<exists>ys. sc xs = Inr ys) \<and> (\<forall>ys. \<exists>p. clf ys = Inr p)
              \<and> fst (validate_transaction_data example_parser (?txs ! i)) = Inr (True, Ok_msg)
              \<and> ((?txs ! i) ''Time'' = None
                   \<or> (\<exists>v x. (?txs ! i) ''Time'' = Some v \<and> py_float example_parser v = Inr x))
              \<longrightarrow> (\<exists>p. get_fraud_score (snd (results ! i)) = Some (py_round p 4)))"
    by (elim exE conjE) (rule that)
  have resp: "fst (predict_batch example_parser (Some ?m) ?req)
             = (Batch_response results 3 (Finite (1 / 2)), 200)"
    using resp' by simp
  have len: "length results = 3" using len' by simp
  have s0: "fst (predict_fraud_probability example_parser ?m (?txs ! 0)) = Inr (3 / 10)"
    by (simp add: example_scored)
  have s2: "fst (predict_fraud_probability example_parser ?m (?txs ! 2)) = Inr (3 / 10)"
    by (simp add: example_scored)
  have v1: "preprocessor ?m \<noteq> None
            \<and> fst (validate_transaction_data example_parser (?txs ! 1))
                = Inr (False, Missing_features [''V1''])"
    using pp missing by simp
  have i0: "fst (results ! 0) = 0 \<and> get_fraud_score (snd (results ! 0)) = Some (3 / 10)"
    using items [rule_format, of 0, THEN conjunct1]
          items [rule_format, of 0, THEN conjunct2, THEN conjunct2, THEN conjunct1,
                 rule_format, OF _ s0]
    by (simp add: r4)
  have i1: "results ! 1 = (1, Error_payload (Missing_features [''V1'']))"
    using items [rule_format, of 1, THEN conjunct2, THEN conjunct1, rule_format, OF _ v1]
    by simp
  have i2: "fst (results ! 2) = 2 \<and> get_fraud_score (snd (results ! 2)) = Some (3 / 10)"
    using items [rule_format, of 2, THEN conjunct1]
          items [rule_format, of 2, THEN conjunct2, THEN conjunct2, THEN conjunct1,
                 rule_format, OF _ s2]
    by (simp add: r4)
  show ?thesis
    using big resp len i0 i1 i2 by blast
qed

section \<open>The threshold\<close>

lemma api_bad_threshold:
  assumes bad: "(\<exists>e. py_float pf v = Inl e)
                \<or> (\<exists>x. py_float pf v = Inr x \<and> \<not> (fl_le (Finite 0) x \<and> fl_le x (Finite 1)))"
      and thr: "json req ''threshold'' = Some v" and js: "is_json req"
  shows "api_predict_fraud pf load g (Some m) req =
           (case py_float pf v of
              Inl e \<Rightarrow>
                if fst e = ValueError \<or> fst e = TypeError
                then ((Error_response Threshold_not_number, 400), g, [])
                else ((Error_response (Internal_server_error (str_exn e)), 500), g,
                      [(ERROR, Api_predict_failed e), (ERROR, Api_traceback)])
            | Inr x \<Rightarrow> ((Error_response Threshold_range, 400), g, []))"
proof -
  have "json req \<noteq> Map.empty" using thr by auto
  then show ?thesis
    using bad thr js
    by (auto simp: api_predict_fraud_def Let_def split: sum.splits)
qed

lemma batch_bad_threshold:
  assumes bad: "(\<exists>e. py_float pf v = Inl e)
                \<or> (\<exists>x. py_float pf v = Inr x \<and> \<not> (fl_le (Finite 0) x \<and> fl_le x (Finite 1)))"
      and thr: "batch_threshold req = Some v" and js: "batch_is_json req"
      and txs: "transactions req = Some txs"
  shows "predict_batch pf (Some m) req =
           (case py_float pf v of
              Inl e \<Rightarrow>
                if fst e = ValueError \<or> fst e = TypeError
                then ((Error_response Threshold_not_number, 400), [])
                else ((Error_response (str_exn e), 500), [(ERROR, Api_batch_failed e)])
            | Inr x \<Rightarrow> ((Error_response Threshold_range, 400), []))"
  using assms
  by (auto simp: predict_batch_def Let_def split: sum.splits)

text \<open>
  Claim C4. Let the threshold \<open>v\<close> of a request either not convert to a float or
  convert to one outside \<open>[0, 1]\<close>. Then \<open>/predict\<close> and \<open>/predict/batch\<close> answer
  with an error, never with status 200. With a JSON body (and, for a batch, a
  \<open>transactions\<close> key) and the model loaded, the answer and the log are those of
  the request that carries the threshold and nothing else, under any other
  loaded model: neither the transactions nor the model have been consulted.
  For \<open>/predict\<close> this holds under any other loader as well, and the singleton
  \<open>_global_model\<close> is left as it was. When a request carries no threshold, the
  answer and the log are those of the same request carrying the threshold 0.5.
\<close>

theorem threshold_checked_first:
  assumes "(\<exists>e. py_float pf v = Inl e)
           \<or> (\<exists>x. py_float pf v = Inr x \<and> \<not> (fl_le (Finite 0) x \<and> fl_le x (Finite 1)))"
  shows "(json req ''threshold'' = Some v \<longrightarrow>
            (\<exists>msg code. fst (api_predict_fraud pf load g fraud_model req)
                           = (Error_response msg, code)
               \<and> code \<noteq> 200)
          \<and> fst (snd (api_predict_fraud pf load g fraud_model req)) = g
          \<and> (is_json req \<longrightarrow>
                api_predict_fraud pf load g (Some m) req =
                  api_predict_fraud pf load' g (Some m')
                    \<lparr>is_json = True, json = [''threshold'' \<mapsto> v]\<rparr>))
       \<and> (batch_threshold breq = Some v \<longrightarrow>
            (\<exists>msg code. fst (predict_batch pf fraud_model breq) = (Error_response msg, code)
               \<and> code \<noteq> 200)
          \<and> (batch_is_json breq \<and> transactions breq \<noteq> None \<longrightarrow>
                predict_batch pf (Some m) breq =
                  predict_batch pf (Some m')
                    \<lparr>batch_is_json = True, transactions = Some [], batch_threshold = Some v\<rparr>))
       \<and> (json req' ''threshold'' = None \<and> json req' \<noteq> Map.empty \<longrightarrow>
            api_predict_fraud pf load g fraud_model req' =
              api_predict_fraud pf load g fraud_model
                (req'\<lparr>json := (json req')(''threshold'' \<mapsto> PyFloat (Finite 0.5))\<rparr>))
       \<and> (batch_threshold breq' = None \<longrightarrow>
            predict_batch pf fraud_model breq' =
              predict_batch pf fraud_model (breq'\<lparr>batch_threshold := Some (PyFloat (Finite 0.5))\<rparr>))"
proof (intro conjI impI)
  assume thr: "json req ''threshold'' = Some v"
  have rejected:
    "(\<exists>msg code. fst (api_predict_fraud pf load g fraud_model req) = (Error_response msg, code)
        \<and> code \<noteq> 200)
     \<and> fst (snd (api_predict_fraud pf load g fraud_model req)) = g"
  proof (cases fraud_model)
    case None
    then show ?thesis by (simp add: api_predict_fraud_def)
  next
    case (Some m0)
    show ?thesis
    proof (cases "is_json req")
      case True
      from api_bad_threshold [OF assms thr True, of load g m0] Some show ?thesis
        by (auto split: sum.splits)
    next
      case False
      with Some show ?thesis by (simp add: api_predict_fraud_def)
    qed
  qed
  then show "\<exists>msg code. fst (api_predict_fraud pf load g fraud_model req)
                           = (Error_response msg, code)
          \<and> code \<noteq> 200"
    by (rule conjunct1)
  from rejected show "fst (snd (api_predict_fraud pf load g fraud_model req)) = g"
    by (rule conjunct2)
  assume js: "is_json req"
  have "api_predict_fraud pf load' g (Some m') \<lparr>is_json = True, json = [''threshold'' \<mapsto> v]\<rparr>
          = api_predict_fraud pf load g (Some m) req"
    by (simp only: api_bad_threshold [OF assms thr js, of load g m]
          api_bad_threshold [OF assms,
            of "\<lparr>is_json = True, json = [''threshold'' \<mapsto> v]\<rparr>" load' g m', simplified])
  then show "api_predict_fraud pf load g (Some m) req =
          api_predict_fraud pf load' g (Some m')
            \<lparr>is_json = True, json = [''threshold'' \<mapsto> v]\<rparr>"
    by simp
next
  assume thr: "batch_threshold breq = Some v"
  show "\<exists>msg code. fst (predict_batch pf fraud_model breq) = (Error_response msg, code)
          \<and> code \<noteq> 200"
    using assms thr
    by (auto simp: predict_batch_def Let_def split: option.splits sum.splits)
  assume "batch_is_json breq \<and> transactions breq \<noteq> None"
  then obtain txs where js: "batch_is_json breq" and txs: "transactions breq = Some txs"
    by auto
  have "predict_batch pf (Some m')
          \<lparr>batch_is_json = True, transactions = Some [], batch_threshold = Some v\<rparr>
          = predict_batch pf (Some m) breq"
    by (simp only: batch_bad_threshold [OF assms thr js txs, of m]
          batch_bad_threshold [OF assms,
            of "\<lparr>batch_is_json = True, transactions = Some [], batch_threshold = Some v\<rparr>"
               "[]" m', simplified])
  then show "predict_batch pf (Some m) breq =
          predict_batch pf (Some m')
            \<lparr>batch_is_json = True, transactions = Some [], batch_threshold = Some v\<rparr>"
    by simp
next
  assume "json req' ''threshold'' = None \<and> json req' \<noteq> Map.empty"
  then have none: "json req' ''threshold'' = None" and ne: "json req' \<noteq> Map.empty"
    by simp_all
  have ne': "(json req')(''threshold'' \<mapsto> PyFloat (Finite 0.5)) \<noteq> Map.empty"
    by simp
  have same: "((json req')(''threshold'' \<mapsto> PyFloat (Finite 0.5)))(''threshold'' := None)
                = (json req')(''threshold'' := None)"
    by simp
  show "api_predict_fraud pf load g fraud_model req' =
          api_predict_fraud pf load g fraud_model
            (req'\<lparr>json := (json req')(''threshold'' \<mapsto> PyFloat (Finite 0.5))\<rparr>)"
    using none ne ne'
    by (cases fraud_model; cases "is_json req'")
       (simp_all add: api_predict_fraud_def Let_def same)
next
  assume "batch_threshold breq' = None"
  then show "predict_batch pf fraud_model breq' =
          predict_batch pf fraud_model (breq'\<lparr>batch_threshold := Some (PyFloat (Finite 0.5))\<rparr>)"
    by (cases fraud_model; cases "batch_is_json breq'"; cases "transactions breq'")
       (simp_all add: predict_batch_def Let_def)
qed

lemma get_model_loaded: "get_model load (Some m) = (Inr m, Some m, [])"
  by (simp add: get_model_def)

lemma api_predict_scored:
  assumes js: "is_json req" and thr: "json req ''threshold'' = Some v"
      and conv: "py_float pf v = Inr t" and lo: "fl_le (Finite 0) t" and hi: "fl_le t (Finite 1)"
      and scored: "fst (predict_fraud_probability pf m ((json req)(''threshold'' := None))) = Inr p"
  shows "fst (api_predict_fraud pf load (Some m) (Some m0) req) =
           (Predict_response (Some (py_round p 4)) (Some (fl_le t (Finite p)))
              (Some (py_round (max p (1 - p)) 4))
              (Some (if p < 0.1 then Very_low else if p < 0.3 then Low
                     else if p < 0.7 then Medium else if p < 0.9 then High else Very_high))
              t
              (Some (metrics_get (metrics m) ''model_name'', metrics_get (metrics m) ''roc_auc'')),
            200)"
proof -
  let ?data = "(json req)(''threshold'' := None)"
  have ne: "json req \<noteq> Map.empty" using thr by auto
  obtain lg where v: "validate_transaction_data pf ?data = (Inr (True, Ok_msg), lg)"
    using predict_probability_valid [OF scored]
    by (cases "validate_transaction_data pf ?data") simp
  obtain r d' m' lg' where pwd: "predict_with_details pf m ?data t = (r, d', m', lg')"
    by (cases "predict_with_details pf m ?data t")
  have r: "r = Prediction (py_round p 4) (fl_le t (Finite p)) (py_round (max p (1 - p)) 4)
             (if p < 0.1 then Very_low else if p < 0.3 then Low
              else if p < 0.7 then Medium else if p < 0.9 then High else Very_high)
             t (metrics_get (metrics m) ''model_name'', metrics_get (metrics m) ''roc_auc'')"
    using predict_with_details_scored [OF scored, of t] pwd by simp
  have "m' = m"
    using predict_with_details_self [of pf m ?data t] pwd by simp
  then have vp: "validate_and_predict pf load (Some m) ?data t = ((True, r), d', Some m, lg @ lg')"
    by (simp add: validate_and_predict_def predict_fraud_def get_model_loaded v pwd)
  show ?thesis
    using js ne thr conv lo hi
    by (simp add: api_predict_fraud_def Let_def vp r)
qed

lemma sample_no_threshold:
  "create_sample_transaction(''threshold'' := None) = create_sample_transaction"
proof -
  have "create_sample_transaction ''threshold'' = None"
    by (simp add: create_sample_transaction_def)
  then show ?thesis by (rule fun_upd_idem)
qed

text \<open>
  The example transaction with the thresholds 1.5, -0.1 and \<open>"soon"\<close> is rejected
  with nothing logged and the singleton as it was, and so is a batch with the
  threshold 1.5; without a threshold it is scored against 0.5, which the
  response echoes.
\<close>

theorem threshold_checked_first_witness:
  "api_predict_fraud example_parser failing_loader (Some (example_model (3 / 10)))
     (Some (example_model (3 / 10)))
     \<lparr>is_json = True, json = create_sample_transaction(''threshold'' \<mapsto> PyFloat (Finite (3 / 2)))\<rparr>
     = ((Error_response Threshold_range, 400), Some (example_model (3 / 10)), [])
   \<and> api_predict_fraud example_parser failing_loader (Some (example_model (3 / 10)))
     (Some (example_model (3 / 10)))
     \<lparr>is_json = True,
      json = create_sample_transaction(''threshold'' \<mapsto> PyFloat (Finite (- (1 / 10))))\<rparr>
     = ((Error_response Threshold_range, 400), Some (example_model (3 / 10)), [])
   \<and> api_predict_fraud example_parser failing_loader (Some (example_model (3 / 10)))
     (Some (example_model (3 / 10)))
     \<lparr>is_json = True, json = create_sample_transaction(''threshold'' \<mapsto> PyStr ''soon'')\<rparr>
     = ((Error_response Threshold_not_number, 400), Some (example_model (3 / 10)), [])
   \<and> predict_batch example_parser (Some (example_model (3 / 10)))
     \<lparr>batch_is_json = True, transactions = Some [create_sample_transaction],
      batch_threshold = Some (PyFloat (Finite (3 / 2)))\<rparr>
     = ((Error_response Threshold_range, 400), [])
   \<and> fst (api_predict_fraud example_parser failing_loader (Some (example_model (3 / 10)))
            (Some (example_model (3 / 10)))
            \<lparr>is_json = True, json = create_sample_transaction\<rparr>)
     = (Predict_response (Some (3 / 10)) (Some False) (Some (7 / 10)) (Some Medium)
          (Finite (1 / 2)) (Some (PyStr ''Unknown'', PyStr ''Unknown'')), 200)"
proof -
  let ?m = "example_model (3 / 10)"
  let ?m' = "example_model (9 / 10)"
  let ?l = failing_loader
  let ?l' = "example_loader (9 / 10)"
  have min: "api_predict_fraud example_parser ?l' (Some ?m) (Some ?m')
               \<lparr>is_json = True, json = [''threshold'' \<mapsto> v]\<rparr>
      = (case py_float example_parser v of
              Inl e \<Rightarrow>
                if fst e = ValueError \<or> fst e = TypeError
                then ((Error_response Threshold_not_number, 400), Some ?m, [])
                else ((Error_response (Internal_server_error (str_exn e)), 500), Some ?m,
                      [(ERROR, Api_predict_failed e), (ERROR, Api_traceback)])
            | Inr x \<Rightarrow>
                if \<not> (fl_le (Finite 0) x \<and> fl_le x (Finite 1))
                then ((Error_response Threshold_range, 400), Some ?m, [])
                else api_predict_fraud example_parser ?l' (Some ?m) (Some ?m')
                       \<lparr>is_json = True, json = [''threshold'' \<mapsto> v]\<rparr>)" for v
    by (simp add: api_predict_fraud_def Let_def split: sum.splits)
  have c1: "api_predict_fraud example_parser ?l (Some ?m) (Some ?m)
     \<lparr>is_json = True, json = create_sample_transaction(''threshold'' \<mapsto> PyFloat (Finite (3 / 2)))\<rparr>
     = ((Error_response Threshold_range, 400), Some ?m, [])"
    using threshold_checked_first [where pf = example_parser and v = "PyFloat (Finite (3 / 2))"
        and req = "\<lparr>is_json = True,
                     json = create_sample_transaction(''threshold'' \<mapsto> PyFloat (Finite (3 / 2)))\<rparr>"
        and m = ?m and m' = ?m' and load = ?l and load' = ?l' and g = "Some ?m"]
       min [of "PyFloat (Finite (3 / 2))"]
    by simp
  have c2: "api_predict_fraud example_parser ?l (Some ?m) (Some ?m)
     \<lparr>is_json = True,
      json = create_sample_transaction(''threshold'' \<mapsto> PyFloat (Finite (- (1 / 10))))\<rparr>
     = ((Error_response Threshold_range, 400), Some ?m, [])"
    using threshold_checked_first [where pf = example_parser and v = "PyFloat (Finite (- (1 / 10)))"
        and req = "\<lparr>is_json = True,
                     json = create_sample_transaction(''threshold'' \<mapsto> PyFloat (Finite (- (1 / 10))))\<rparr>"
        and m = ?m and m' = ?m' and load = ?l and load' = ?l' and g = "Some ?m"]
       min [of "PyFloat (Finite (- (1 / 10)))"]
    by simp
  have soon: "py_float example_parser (PyStr ''soon'') = Inl (ValueError, Float_value_error)"
    by (simp add: example_parser_def)
  have c3: "api_predict_fraud example_parser ?l (Some ?m) (Some ?m)
     \<lparr>is_json = True, json = create_sample_transaction(''threshold'' \<mapsto> PyStr ''soon'')\<rparr>
     = ((Error_response Threshold_not_number, 400), Some ?m, [])"
    using threshold_checked_first [where pf = example_parser and v = "PyStr ''soon''"
        and req = "\<lparr>is_json = True,
                     json = create_sample_transaction(''threshold'' \<mapsto> PyStr ''soon'')\<rparr>"
        and m = ?m and m' = ?m' and load = ?l and load' = ?l' and g = "Some ?m"]
       min [of "PyStr ''soon''"] soon
    by (simp del: py_float.simps)
  have c4: "predict_batch example_parser (Some ?m)
     \<lparr>batch_is_json = True, transactions = Some [create_sample_transaction],
      batch_threshold = Some (PyFloat (Finite (3 / 2)))\<rparr>
     = ((Error_response Threshold_range, 400), [])"
    using threshold_checked_first [where pf = example_parser and v = "PyFloat (Finite (3 / 2))"
        and breq = "\<lparr>batch_is_json = True, transactions = Some [create_sample_transaction],
                      batch_threshold = Some (PyFloat (Finite (3 / 2)))\<rparr>"
        and m = ?m and m' = ?m']
    by (simp add: predict_batch_def)
  have ne: "create_sample_transaction \<noteq> Map.empty"
  proof
    assume "create_sample_transaction = Map.empty"
    from fun_cong [OF this, of "''Amount''"]
    have "create_sample_transaction ''Amount'' = None" by simp
    with float_item_present [OF sample_amount [of example_parser]] show False by simp
  qed
  have nt: "create_sample_transaction ''threshold'' = None"
    by (simp add: create_sample_transaction_def)
  have mm: "metrics ?m = None"
    by (simp add: example_model_def)
  have r4: "py_round (3 / 10) 4 = 3 / 10" "py_round (7 / 10) 4 = 7 / 10"
    by (simp_all add: py_round_def)
  have "fst (api_predict_fraud example_parser ?l (Some ?m) (Some ?m)
            \<lparr>is_json = True, json = create_sample_transaction\<rparr>)
      = fst (api_predict_fraud example_parser ?l (Some ?m) (Some ?m)
            \<lparr>is_json = True,
             json = create_sample_transaction(''threshold'' \<mapsto> PyFloat (Finite 0.5))\<rparr>)"
    using threshold_checked_first [where pf = example_parser and v = "PyNone"
        and req' = "\<lparr>is_json = True, json = create_sample_transaction\<rparr>"
        and fraud_model = "Some ?m" and load = ?l and g = "Some ?m"] ne nt
    by simp
  also have "\<dots> = (Predict_response (Some (3 / 10)) (Some False) (Some (7 / 10)) (Some Medium)
          (Finite (1 / 2)) (Some (PyStr ''Unknown'', PyStr ''Unknown'')), 200)"
    using api_predict_scored [where pf = example_parser and m = ?m and m0 = ?m and p = "3 / 10"
        and load = ?l
        and req = "\<lparr>is_json = True,
                     json = create_sample_transaction(''threshold'' \<mapsto> PyFloat (Finite 0.5))\<rparr>"
        and v = "PyFloat (Finite 0.5)" and t = "Finite 0.5"]
    by (simp add: sample_no_threshold example_scored r4 metrics_get_def mm)
  finally show ?thesis
    using c1 c2 c3 c4 by simp
qed

end
